theory Spec2Isabelle
  imports Main "HOL-Library.Word"
begin

section \<open>Nitron fire control: constants and data\<close>

text \<open>
  The repository holds two revisions of one Arduino sketch: v0.9.0
  (\<^verbatim>\<open>src/unnamed/part_000\<close>) and v0.5.0 (\<^verbatim>\<open>src/Nitron-FCB.ino\<close>).
  The definitions without a suffix embed v0.9.0; the ones ending in \<open>_v050\<close> embed the
  functions of v0.5.0 that differ.

  Machine types: \<^verbatim>\<open>unsigned long\<close> (the value of \<^verbatim>\<open>millis()\<close> and every
  stored timestamp) is a 32-bit word; \<^verbatim>\<open>unsigned int\<close> (the shot counter and the
  mode index) is a 16-bit word, as on the AVR boards the sketch is written for.
  Subtraction on words wraps around, as in C. The ESC pulse lengths are \<^verbatim>\<open>int\<close>
  constants that are only ever copied, so they are modelled as \<open>int\<close>.
\<close>

type_synonym u16 = "16 word"
type_synonym u32 = "32 word"

definition pusherRunPulse :: int where "pusherRunPulse = 1590"
definition pusherReturnPulse :: int where "pusherReturnPulse = 1550"
definition pusherStopPulse :: int where "pusherStopPulse = 1000"
definition flywheelRunPulse :: int where "flywheelRunPulse = 1650"
definition flywheelStopPulse :: int where "flywheelStopPulse = 1520"

definition flywheelSpoolTime :: u32 where "flywheelSpoolTime = 250"
definition flywheelRunTime :: u32 where "flywheelRunTime = 250"
definition debounceDelay :: u32 where "debounceDelay = 5"

text \<open>The constants of v0.5.0 that differ.\<close>

definition centeringPulse_v050 :: int where "centeringPulse_v050 = 1500"
definition pusherRunPulse_v050 :: int where "pusherRunPulse_v050 = 2000"
definition flywheelRunPulse_v050 :: int where "flywheelRunPulse_v050 = 2000"
definition flywheelStopPulse_v050 :: int where "flywheelStopPulse_v050 = 1500"
definition flywheelSpoolTime_v050 :: u32 where "flywheelSpoolTime_v050 = 500"
definition flywheelRunTime_v050 :: u32 where "flywheelRunTime_v050 = 2500"
definition pusherDiscDelay_v050 :: u32 where "pusherDiscDelay_v050 = 100"
definition debounceDelay_v050 :: u32 where "debounceDelay_v050 = 10"

text \<open>
  \<^verbatim>\<open>const unsigned int shotCount[] = {1, 3, 65535};\<close> (both revisions). A read
  past the end of the array is undefined behaviour in C++; the model makes it \<open>None\<close>.
\<close>

definition shotCount :: "nat \<Rightarrow> u16 option" where
  "shotCount i = (if i < 3 then Some ([1, 3, 65535] ! i) else None)"

definition magazinePin :: nat where "magazinePin = 4"
definition ejectPin :: nat where "ejectPin = 5"
definition disclPin :: nat where "disclPin = 6"
definition discrPin :: nat where "discrPin = 7"
definition positionPin :: nat where "positionPin = 8"
definition triggerPin :: nat where "triggerPin = 9"
definition readyPin :: nat where "readyPin = 10"

text \<open>
  The three \<^verbatim>\<open>static\<close> arrays of \<^verbatim>\<open>debounceInput\<close>, indexed by pin number. They
  have 22 entries in the source and are only ever indexed by the pin constants above
  (4 to 10), so they are modelled as total functions of the index.
\<close>

record dbstate =
  timer :: "nat \<Rightarrow> u32"
  lastState :: "nat \<Rightarrow> bool"
  currentState :: "nat \<Rightarrow> bool"

text \<open>
  The global variables, followed by the function-local statics: \<open>db\<close> belongs to
  \<^verbatim>\<open>debounceInput\<close>; \<open>lastTriggerPinState\<close> and \<open>lastpositionPinState\<close> to
  \<^verbatim>\<open>fireControl\<close> of v0.9.0; \<open>lastDiscState\<close> to \<^verbatim>\<open>fireControl\<close> of v0.5.0 and
  \<open>lastPositionPinState\<close> to \<^verbatim>\<open>pusherControl\<close> of v0.5.0.

  In v0.9.0 \<open>pusherPulse\<close> and \<open>flywheelPulse\<close> are globals, written to the ESCs at
  the end of \<^verbatim>\<open>pusherControl\<close> and \<^verbatim>\<open>flywheelControl\<close> on every tick; they are
  the motor commands. v0.5.0 has no such variables and calls
  \<^verbatim>\<open>writeMicroseconds\<close> directly; for v0.5.0 the two fields hold the pulse most
  recently written to each ESC.
\<close>

record globals =
  magazinePinState :: bool
  ejectPinState :: bool
  disclPinState :: bool
  discrPinState :: bool
  positionPinState :: bool
  triggerPinState :: bool
  readyPinState :: bool
  shotMode :: u16
  shotsRemaining :: u16
  flywheelStartTime :: u32
  flywheelTimer :: u32
  positionPinTimer :: u32
  pusherPulse :: int
  flywheelPulse :: int
  db :: dbstate
  lastTriggerPinState :: bool
  lastpositionPinState :: bool
  lastDiscState :: bool
  lastPositionPinState :: bool

text \<open>
  What the environment supplies during one control tick. Every call of
  \<^verbatim>\<open>millis()\<close> is a separate reading of the clock, so each call site gets a value
  of its own: nothing in the model assumes that the clock stands still within a tick.
  \<open>digitalRead p\<close> is \<open>True\<close> when pin \<open>p\<close> reads HIGH.
\<close>

record clocks =
  millisPusher :: u32
  millisFlywheelA :: u32
  millisFlywheelB :: u32
  millisFlywheelC :: u32

record inputs =
  digitalRead :: "nat \<Rightarrow> bool"
  millisDebounceA :: "nat \<Rightarrow> u32"
  millisDebounceB :: "nat \<Rightarrow> u32"
  ctl :: clocks

section \<open>The input debouncer\<close>

text \<open>
  \<^verbatim>\<open>bool debounceInput(int pin)\<close>, identical in both revisions but for the value of
  \<^verbatim>\<open>debounceDelay\<close>, which is the first argument here. \<open>level\<close> is the result of
  \<^verbatim>\<open>digitalRead(pin)\<close>; \<open>tA\<close> is the clock read when the sample differs from the last
  one (\<^verbatim>\<open>timer[pin] = millis()\<close>), \<open>tB\<close> the clock read in the comparison.
\<close>

definition debounceInput ::
  "u32 \<Rightarrow> nat \<Rightarrow> bool \<Rightarrow> u32 \<Rightarrow> u32 \<Rightarrow> dbstate \<Rightarrow> bool \<times> dbstate" where
  "debounceInput delay pin level tA tB d =
    (let liveValue = \<not> level;
         d1 = (if liveValue \<noteq> lastState d pin
               then d\<lparr>timer := (timer d)(pin := tA),
                      lastState := (lastState d)(pin := liveValue)\<rparr>
               else d);
         d2 = (if tB - timer d1 pin \<ge> delay
               then d1\<lparr>currentState := (currentState d1)(pin := liveValue)\<rparr>
               else d1)
     in (currentState d2 pin, d2))"

text \<open>
  A sequence of polls of one pin. A poll is what the environment supplies to one call:
  the pin's level and the two clock readings.
\<close>

record poll =
  level :: bool
  clockA :: u32
  clockB :: u32

fun polls :: "u32 \<Rightarrow> nat \<Rightarrow> poll list \<Rightarrow> dbstate \<Rightarrow> dbstate" where
  "polls delay pin [] d = d"
| "polls delay pin (q # qs) d =
     polls delay pin qs (snd (debounceInput delay pin (level q) (clockA q) (clockB q) d))"

section \<open>The three controllers of v0.9.0\<close>

text \<open>\<^verbatim>\<open>void pusherControl()\<close>; \<open>t\<close> is the one clock reading the function makes.\<close>

definition pusherControl :: "u32 \<Rightarrow> globals \<Rightarrow> globals" where
  "pusherControl t s =
    (if ejectPinState s \<and> magazinePinState s then
       (if positionPinState s then
          (if shotsRemaining s \<noteq> 0 then
             (if disclPinState s \<and> discrPinState s \<and> flywheelStartTime s \<noteq> 0
                 \<and> t - flywheelStartTime s \<ge> flywheelSpoolTime
              then s\<lparr>pusherPulse := pusherRunPulse\<rparr>
              else s)
           else s\<lparr>pusherPulse := pusherReturnPulse\<rparr>)
        else
          (if shotsRemaining s \<noteq> 0 then
             (let s1 = (if flywheelStartTime s \<noteq> 0 \<and> t - flywheelStartTime s \<ge> flywheelSpoolTime
                        then (if shotsRemaining s = 1 \<and> shotMode s \<ge> 1
                              then s\<lparr>pusherPulse := pusherReturnPulse\<rparr>
                              else s\<lparr>pusherPulse := pusherRunPulse\<rparr>)
                        else s)
              in (if \<not> disclPinState s1 \<and> \<not> discrPinState s1
                  then s1\<lparr>pusherPulse := pusherStopPulse\<rparr>
                  else s1))
           else s\<lparr>pusherPulse := pusherStopPulse\<rparr>))
     else s\<lparr>pusherPulse := pusherStopPulse\<rparr>)"

text \<open>
  \<^verbatim>\<open>void flywheelControl()\<close>; \<open>tA\<close>, \<open>tB\<close>, \<open>tC\<close> are the clock readings at
  \<^verbatim>\<open>flywheelStartTime = millis()\<close>, \<^verbatim>\<open>flywheelTimer = millis()\<close> and in the
  comparison with \<^verbatim>\<open>flywheelRunTime\<close>.
\<close>

definition flywheelControl :: "u32 \<Rightarrow> u32 \<Rightarrow> u32 \<Rightarrow> globals \<Rightarrow> globals" where
  "flywheelControl tA tB tC s =
    (let s1 = (if (shotsRemaining s \<noteq> 0 \<or> readyPinState s) \<and> ejectPinState s \<and> magazinePinState s
               then (if flywheelStartTime s = 0 then s\<lparr>flywheelStartTime := tA\<rparr> else s)
                      \<lparr>flywheelTimer := tB, flywheelPulse := flywheelRunPulse\<rparr>
               else s)
     in (if tC - flywheelTimer s1 \<ge> flywheelRunTime \<or> \<not> ejectPinState s1 \<or> \<not> magazinePinState s1
         then s1\<lparr>flywheelPulse := flywheelStopPulse, flywheelStartTime := 0\<rparr>
         else s1))"

text \<open>\<^verbatim>\<open>void fireControl()\<close>; \<open>None\<close> is the read past the end of \<^verbatim>\<open>shotCount\<close>.\<close>

definition fireControl :: "globals \<Rightarrow> globals option" where
  "fireControl s =
    (case (if triggerPinState s \<and> \<not> lastTriggerPinState s \<and> ejectPinState s \<and> magazinePinState s
           then (case shotCount (unat (shotMode s)) of
                   None \<Rightarrow> None
                 | Some n \<Rightarrow> Some (s\<lparr>shotsRemaining := n\<rparr>))
           else Some s) of
       None \<Rightarrow> None
     | Some s1 \<Rightarrow>
        (let s2 = (if shotsRemaining s1 \<noteq> 0 \<and> \<not> lastpositionPinState s1 \<and> positionPinState s1
                   then s1\<lparr>shotsRemaining := shotsRemaining s1 - 1\<rparr>
                   else s1);
             s3 = (if \<not> triggerPinState s2 \<or> \<not> ejectPinState s2 \<or> \<not> magazinePinState s2
                   then s2\<lparr>shotsRemaining := 0\<rparr>
                   else s2)
         in Some (s3\<lparr>lastTriggerPinState := triggerPinState s3,
                      lastpositionPinState := positionPinState s3\<rparr>)))"

section \<open>The control tick of v0.9.0\<close>

text \<open>
  Lines 88 to 94 of \<^verbatim>\<open>loop()\<close> once the four debounced values are known: the magazine
  and the two chamber (disc) states are assigned the constant \<^verbatim>\<open>true\<close>.
\<close>

definition latch :: "bool \<Rightarrow> bool \<Rightarrow> bool \<Rightarrow> bool \<Rightarrow> globals \<Rightarrow> globals" where
  "latch e p tr r s =
     s\<lparr>magazinePinState := True, ejectPinState := e, disclPinState := True,
       discrPinState := True, positionPinState := p, triggerPinState := tr,
       readyPinState := r\<rparr>"

definition readInputs :: "inputs \<Rightarrow> globals \<Rightarrow> globals" where
  "readInputs inp s =
    (let rd = (\<lambda>pin d. debounceInput debounceDelay pin (digitalRead inp pin)
                          (millisDebounceA inp pin) (millisDebounceB inp pin) d);
         (e, d1) = rd ejectPin (db s);
         (p, d2) = rd positionPin d1;
         (tr, d3) = rd triggerPin d2;
         (r, d4) = rd readyPin d3
     in latch e p tr r (s\<lparr>db := d4\<rparr>))"

text \<open>The three calls \<^verbatim>\<open>pusherControl(); flywheelControl(); fireControl();\<close> in that order.\<close>

definition control :: "clocks \<Rightarrow> globals \<Rightarrow> globals option" where
  "control c s =
     fireControl (flywheelControl (millisFlywheelA c) (millisFlywheelB c) (millisFlywheelC c)
                    (pusherControl (millisPusher c) s))"

text \<open>
  \<^verbatim>\<open>void loop()\<close>. The LED write at its end copies \<open>positionPinState\<close> to an output
  and changes no variable, so it is left out.
\<close>

definition loop :: "inputs \<Rightarrow> globals \<Rightarrow> globals option" where
  "loop inp s = control (ctl inp) (readInputs inp s)"

text \<open>Several ticks in a row, stopping at undefined behaviour.\<close>

fun loops :: "inputs list \<Rightarrow> globals \<Rightarrow> globals option" where
  "loops [] s = Some s"
| "loops (inp # inps) s = (case loop inp s of None \<Rightarrow> None | Some s' \<Rightarrow> loops inps s')"

text \<open>
  Several ticks in a row at the level of the debounced signals: a tick gives the four
  debounced values and the tick's clock readings. Every tick of \<open>loop\<close> is such a
  tick, for the values \<^verbatim>\<open>debounceInput\<close> returned (lemma \<open>loops_run\<close>).
\<close>

record tick =
  tEject :: bool
  tPosition :: bool
  tTrigger :: bool
  tReady :: bool
  tClocks :: clocks

fun run :: "tick list \<Rightarrow> globals \<Rightarrow> globals option" where
  "run [] s = Some s"
| "run (k # ks) s =
     (case control (tClocks k) (latch (tEject k) (tPosition k) (tTrigger k) (tReady k) s) of
        None \<Rightarrow> None
      | Some s' \<Rightarrow> run ks s')"

text \<open>The values of the globals and statics before the first tick (their initialisers).\<close>

definition init :: globals where
  "init = \<lparr>magazinePinState = False, ejectPinState = False, disclPinState = False,
           discrPinState = False, positionPinState = False, triggerPinState = False,
           readyPinState = False, shotMode = 1, shotsRemaining = 0,
           flywheelStartTime = 0, flywheelTimer = 0, positionPinTimer = 0,
           pusherPulse = 1520, flywheelPulse = 1520,
           db = \<lparr>timer = (\<lambda>_. 0), lastState = (\<lambda>_. False), currentState = (\<lambda>_. False)\<rparr>,
           lastTriggerPinState = False, lastpositionPinState = False,
           lastDiscState = False, lastPositionPinState = False\<rparr>"

section \<open>The controllers of v0.5.0\<close>

text \<open>
  \<^verbatim>\<open>pusherControl\<close> of v0.5.0: \<open>tA\<close> is the clock read when the position changed,
  \<open>tB\<close> the one in the run condition, \<open>tC\<close> the one in the brake condition.
\<close>

definition pusherControl_v050 :: "u32 \<Rightarrow> u32 \<Rightarrow> u32 \<Rightarrow> globals \<Rightarrow> globals" where
  "pusherControl_v050 tA tB tC s =
    (let s1 = (if positionPinState s \<noteq> lastPositionPinState s
               then s\<lparr>positionPinTimer := tA, lastPositionPinState := positionPinState s\<rparr>
               else s);
         s2 = (if (positionPinState s1
                    \<or> (shotsRemaining s1 \<noteq> 0 \<and> tB - flywheelStartTime s1 \<ge> flywheelSpoolTime_v050))
                  \<and> ejectPinState s1 \<and> magazinePinState s1
               then s1\<lparr>pusherPulse := pusherRunPulse_v050\<rparr>
               else s1)
     in (if (\<not> positionPinState s2
              \<and> (shotsRemaining s2 = 0
                   \<or> ((\<not> disclPinState s2 \<or> \<not> discrPinState s2)
                        \<and> tC - positionPinTimer s2 \<ge> pusherDiscDelay_v050)))
            \<or> \<not> ejectPinState s2 \<or> \<not> magazinePinState s2
         then s2\<lparr>pusherPulse := pusherStopPulse\<rparr>
         else s2))"

definition flywheelControl_v050 :: "u32 \<Rightarrow> u32 \<Rightarrow> u32 \<Rightarrow> globals \<Rightarrow> globals" where
  "flywheelControl_v050 tA tB tC s =
    (let s1 = (if (shotsRemaining s \<noteq> 0 \<or> readyPinState s) \<and> ejectPinState s \<and> magazinePinState s
               then (if flywheelStartTime s = 0 then s\<lparr>flywheelStartTime := tA\<rparr> else s)
                      \<lparr>flywheelTimer := tB, flywheelPulse := flywheelRunPulse_v050\<rparr>
               else s)
     in (if tC - flywheelTimer s1 \<ge> flywheelRunTime_v050 \<or> \<not> ejectPinState s1 \<or> \<not> magazinePinState s1
         then s1\<lparr>flywheelPulse := flywheelStopPulse_v050, flywheelStartTime := 0\<rparr>
         else s1))"

definition fireControl_v050 :: "globals \<Rightarrow> globals option" where
  "fireControl_v050 s =
    (case (if triggerPinState s \<and> \<not> lastTriggerPinState s \<and> ejectPinState s \<and> magazinePinState s
           then (case shotCount (unat (shotMode s)) of
                   None \<Rightarrow> None
                 | Some n \<Rightarrow> Some (s\<lparr>shotsRemaining := n\<rparr>))
           else Some s) of
       None \<Rightarrow> None
     | Some s1 \<Rightarrow>
        (let s2 = (if shotsRemaining s1 \<noteq> 0 \<and> lastDiscState s1
                      \<and> (\<not> disclPinState s1 \<or> \<not> discrPinState s1)
                   then s1\<lparr>shotsRemaining := shotsRemaining s1 - 1\<rparr>
                   else s1);
             s3 = (if \<not> triggerPinState s2 \<or> \<not> ejectPinState s2 \<or> \<not> magazinePinState s2
                   then s2\<lparr>shotsRemaining := 0\<rparr>
                   else s2)
         in Some (s3\<lparr>lastTriggerPinState := triggerPinState s3,
                      lastDiscState := (disclPinState s3 \<and> discrPinState s3)\<rparr>)))"

text \<open>
  v0.5.0 before the first tick: \<^verbatim>\<open>shotMode = 0\<close>, and \<^verbatim>\<open>setup()\<close> has written
  \<^verbatim>\<open>centeringPulse\<close> to both ESCs.
\<close>

definition init_v050 :: globals where
  "init_v050 = init\<lparr>shotMode := 0, pusherPulse := centeringPulse_v050,
                     flywheelPulse := centeringPulse_v050\<rparr>"

section \<open>Reading the spec's vocabulary on the state\<close>

text \<open>
  The spec's "interlock satisfied" is \<^verbatim>\<open>ejectPinState && magazinePinState\<close>; "at home"
  is \<open>positionPinState\<close>; "chamber sensors show a projectile present" is
  \<open>disclPinState\<close> and \<open>discrPinState\<close> both true, "both indicate absence" is both
  false; "queue non-zero" is \<open>shotsRemaining \<noteq> 0\<close>; the pusher commands Run, Return and
  Stop are the three pusher pulse constants and the flywheel commands Run and Stop the two
  flywheel pulse constants.
\<close>

definition interlock :: "globals \<Rightarrow> bool" where
  "interlock s = (ejectPinState s \<and> magazinePinState s)"

text \<open>
  The number of rising edges in a sequence of values of the position signal, given its
  value on the tick before: the spec's "completed strokes".
\<close>

fun risingEdges :: "bool \<Rightarrow> bool list \<Rightarrow> nat" where
  "risingEdges prev [] = 0"
| "risingEdges prev (p # ps) = (if \<not> prev \<and> p then 1 else 0) + risingEdges p ps"

text \<open>
  The clock: \<^verbatim>\<open>millis()\<close> is the Arduino core's free-running millisecond counter, an
  \<^verbatim>\<open>unsigned long\<close> that rolls over after \<open>2 ^ 32\<close> ms. \<open>clockAt T\<close> is the value it
  returns \<open>T\<close> ms after power-up, \<open>T\<close> being the true, unbounded time.
\<close>

definition clockAt :: "nat \<Rightarrow> u32" where
  "clockAt T = of_nat T"

text \<open>
  \<open>stampedBy ps v a\<close>: the polls \<open>ps\<close> end with a run of polls that all sampled the
  logical value \<open>v\<close>, and the first poll of that run read the clock as \<open>a\<close>.
\<close>

definition stampedBy :: "poll list \<Rightarrow> bool \<Rightarrow> u32 \<Rightarrow> bool" where
  "stampedBy ps v a =
     (\<exists>qs q rs. ps = qs @ q # rs \<and> (\<forall>x \<in> set (q # rs). (\<not> level x) = v) \<and> clockA q = a)"

section \<open>Concrete scenarios\<close>

text \<open>A tick in which every reading of the clock gives the same value.\<close>

definition allClocks :: "u32 \<Rightarrow> clocks" where
  "allClocks t = \<lparr>millisPusher = t, millisFlywheelA = t, millisFlywheelB = t,
                   millisFlywheelC = t\<rparr>"

text \<open>
  v0.9.0, eject/safety closed and trigger pressed from power-up on (both pins LOW), the
  position and ready pins HIGH; every clock reading of the tick is \<open>t\<close>.
\<close>

definition pressed_in :: "u32 \<Rightarrow> inputs" where
  "pressed_in t = \<lparr>digitalRead = (\<lambda>p. p \<noteq> ejectPin \<and> p \<noteq> triggerPin),
                    millisDebounceA = (\<lambda>_. t), millisDebounceB = (\<lambda>_. t),
                    ctl = allClocks t\<rparr>"

text \<open>The state in which \<^verbatim>\<open>pusherControl\<close> runs on the third tick, at 0, 10 and 20 ms.\<close>

definition third_tick :: globals where
  "third_tick = readInputs (pressed_in 20) (the (loops [pressed_in 0, pressed_in 10] init))"

text \<open>
  v0.9.0 in the middle of a burst (pusher and flywheel running, two shots left) on a tick
  whose debounced eject/safety signal has just gone false.
\<close>

definition eject_opened :: globals where
  "eject_opened = init\<lparr>magazinePinState := True, ejectPinState := False,
      disclPinState := True, discrPinState := True, triggerPinState := True,
      lastTriggerPinState := True, shotsRemaining := 2, flywheelStartTime := 100,
      flywheelTimer := 990, pusherPulse := 1590, flywheelPulse := 1650\<rparr>"

text \<open>
  v0.9.0 at home with three shots queued, the flywheel started at 1000 ms and the pusher
  still commanded Return.
\<close>

definition spooling :: globals where
  "spooling = init\<lparr>magazinePinState := True, ejectPinState := True,
      disclPinState := True, discrPinState := True, positionPinState := True,
      triggerPinState := True, lastTriggerPinState := True, lastpositionPinState := True,
      shotsRemaining := 3, flywheelStartTime := 1000, flywheelTimer := 1000,
      pusherPulse := 1550, flywheelPulse := 1650\<rparr>"

text \<open>
  v0.9.0 before a tick at 1000 ms: eject/safety and trigger debounced as active, one shot
  left in the queue, the flywheel spinning since 100 ms.
\<close>

definition last_shot :: globals where
  "last_shot = init\<lparr>shotsRemaining := 1, flywheelStartTime := 100, flywheelTimer := 990,
      lastTriggerPinState := True, pusherPulse := 1590, flywheelPulse := 1650,
      db := \<lparr>timer = (\<lambda>_. 0), lastState = (\<lambda>p. p = ejectPin \<or> p = triggerPin),
              currentState = (\<lambda>p. p = ejectPin \<or> p = triggerPin)\<rparr>\<rparr>"

text \<open>
  v0.5.0 on the tick the position signal becomes active, 10 ms after the flywheel was
  started at 20 ms: one shot queued, both chamber sensors active, the pusher last
  commanded Stop.
\<close>

definition homing_v050 :: globals where
  "homing_v050 = init_v050\<lparr>magazinePinState := True, ejectPinState := True,
      disclPinState := True, discrPinState := True, positionPinState := True,
      triggerPinState := True, lastTriggerPinState := True, lastDiscState := True,
      shotsRemaining := 1, flywheelStartTime := 20, flywheelTimer := 20,
      pusherPulse := 1000, flywheelPulse := 2000\<rparr>"

text \<open>
  A tick, at the level of the debounced signals, with eject/safety closed and the trigger
  held, the position signal as given, and every clock reading equal to \<open>t\<close>.
\<close>

definition held :: "u32 \<Rightarrow> bool \<Rightarrow> tick" where
  "held t pos = \<lparr>tEject = True, tPosition = pos, tTrigger = True, tReady = False,
                  tClocks = allClocks t\<rparr>"

text \<open>v0.9.0 before the first tick with mode 2 (65535 shots) selected.\<close>

definition auto_mode :: globals where
  "auto_mode = init\<lparr>shotMode := 2\<rparr>"

text \<open>The same firmware later, the trigger held since the tick before, the queue full.\<close>

definition auto_firing :: globals where
  "auto_firing = init\<lparr>shotMode := 2, shotsRemaining := 65535, magazinePinState := True,
      ejectPinState := True, triggerPinState := True, lastTriggerPinState := True\<rparr>"

text \<open>
  v0.5.0 with mode 2 selected and the queue full, on the tick the left chamber sensor
  goes inactive (a disc has left), the trigger held.
\<close>

definition auto_v050 :: globals where
  "auto_v050 = init_v050\<lparr>shotMode := 2, shotsRemaining := 65535, magazinePinState := True,
      ejectPinState := True, disclPinState := False, discrPinState := True,
      triggerPinState := True, lastTriggerPinState := True, lastDiscState := True\<rparr>"

text \<open>v0.9.0 at rest: interlock satisfied, ready switch asserted, nothing queued.\<close>

definition ready_idle :: globals where
  "ready_idle = init\<lparr>magazinePinState := True, ejectPinState := True, disclPinState := True,
      discrPinState := True, readyPinState := True, pusherPulse := 1000\<rparr>"

text \<open>
  Two polls of a pin that reads LOW, 3 ms apart.
\<close>

definition press_polls :: "poll list" where
  "press_polls = [\<lparr>level = False, clockA = 100, clockB = 100\<rparr>,
                  \<lparr>level = False, clockA = 103, clockB = 103\<rparr>]"

text \<open>
  The state \<open>spooling\<close> with the flywheel started 100 ms before the clock rolls over.
\<close>

definition before_rollover :: globals where
  "before_rollover = spooling\<lparr>flywheelStartTime := clockAt 4294967196\<rparr>"

section \<open>Frame: what each controller leaves alone\<close>

lemmas pulse_defs = pusherRunPulse_def pusherReturnPulse_def pusherStopPulse_def
  flywheelRunPulse_def flywheelStopPulse_def

lemmas pin_defs = magazinePin_def ejectPin_def disclPin_def discrPin_def positionPin_def
  triggerPin_def readyPin_def

lemma pusherControl_frame:
  "pusherControl t s = s\<lparr>pusherPulse := pusherPulse (pusherControl t s)\<rparr>"
  by (simp add: pusherControl_def Let_def)

lemma flywheelControl_frame:
  "flywheelControl tA tB tC s =
     s\<lparr>flywheelStartTime := flywheelStartTime (flywheelControl tA tB tC s),
       flywheelTimer := flywheelTimer (flywheelControl tA tB tC s),
       flywheelPulse := flywheelPulse (flywheelControl tA tB tC s)\<rparr>"
  by (simp add: flywheelControl_def Let_def)

lemma pusherControl_fields:
  "triggerPinState (pusherControl t s) = triggerPinState s"
  "lastTriggerPinState (pusherControl t s) = lastTriggerPinState s"
  "ejectPinState (pusherControl t s) = ejectPinState s"
  "magazinePinState (pusherControl t s) = magazinePinState s"
  "positionPinState (pusherControl t s) = positionPinState s"
  "readyPinState (pusherControl t s) = readyPinState s"
  "lastpositionPinState (pusherControl t s) = lastpositionPinState s"
  "shotsRemaining (pusherControl t s) = shotsRemaining s"
  "shotMode (pusherControl t s) = shotMode s"
  "flywheelStartTime (pusherControl t s) = flywheelStartTime s"
  "flywheelTimer (pusherControl t s) = flywheelTimer s"
  "flywheelPulse (pusherControl t s) = flywheelPulse s"
  by (subst pusherControl_frame, simp)+

lemma flywheelControl_fields:
  "triggerPinState (flywheelControl tA tB tC s) = triggerPinState s"
  "lastTriggerPinState (flywheelControl tA tB tC s) = lastTriggerPinState s"
  "ejectPinState (flywheelControl tA tB tC s) = ejectPinState s"
  "magazinePinState (flywheelControl tA tB tC s) = magazinePinState s"
  "positionPinState (flywheelControl tA tB tC s) = positionPinState s"
  "lastpositionPinState (flywheelControl tA tB tC s) = lastpositionPinState s"
  "shotsRemaining (flywheelControl tA tB tC s) = shotsRemaining s"
  "shotMode (flywheelControl tA tB tC s) = shotMode s"
  "pusherPulse (flywheelControl tA tB tC s) = pusherPulse s"
  by (subst flywheelControl_frame, simp)+

lemma interlock_pusherControl: "interlock (pusherControl t s) = interlock s"
  by (simp add: interlock_def pusherControl_fields)

lemma interlock_flywheelControl: "interlock (flywheelControl tA tB tC s) = interlock s"
  by (simp add: interlock_def flywheelControl_fields)

lemma fireControl_fields:
  "fireControl s = Some s' \<Longrightarrow>
     pusherPulse s' = pusherPulse s \<and> flywheelPulse s' = flywheelPulse s
     \<and> flywheelStartTime s' = flywheelStartTime s \<and> flywheelTimer s' = flywheelTimer s"
  by (auto simp: fireControl_def Let_def split: option.splits if_splits)

lemma readInputs_pins:
  "magazinePinState (readInputs inp s)" "disclPinState (readInputs inp s)"
  "discrPinState (readInputs inp s)"
  by (simp_all add: readInputs_def latch_def Let_def split: prod.splits)

lemma readInputs_fields:
  "flywheelPulse (readInputs inp s) = flywheelPulse s"
  "flywheelStartTime (readInputs inp s) = flywheelStartTime s"
  "pusherPulse (readInputs inp s) = pusherPulse s"
  "shotsRemaining (readInputs inp s) = shotsRemaining s"
  "shotMode (readInputs inp s) = shotMode s"
  by (simp_all add: readInputs_def latch_def Let_def split: prod.splits)

text \<open>Unfolding a tick on concrete inputs, and the state of the third tick after power-up.\<close>

lemmas step_defs = loop_def readInputs_def control_def pusherControl_def flywheelControl_def
  fireControl_def debounceInput_def latch_def Let_def shotCount_def

lemmas const_defs = debounceDelay_def flywheelRunTime_def flywheelSpoolTime_def

lemma third_tick_fields:
  "loops [pressed_in 0, pressed_in 10] init \<noteq> None"
  "ejectPinState third_tick" "magazinePinState third_tick" "\<not> positionPinState third_tick"
  "shotsRemaining third_tick = 3" "disclPinState third_tick" "discrPinState third_tick"
  "flywheelStartTime third_tick = 0" "pusherPulse third_tick = 1000" "shotMode third_tick = 1"
  by (simp_all add: third_tick_def step_defs pressed_in_def allClocks_def init_def pin_defs
      const_defs pulse_defs)

section \<open>Ticks of the loop are ticks at the level of the debounced signals\<close>

lemma pusherControl_db: "pusherControl t (s\<lparr>db := d\<rparr>) = (pusherControl t s)\<lparr>db := d\<rparr>"
  by (simp add: pusherControl_def Let_def)

lemma flywheelControl_db_fields:
  "flywheelStartTime (flywheelControl tA tB tC (s\<lparr>db := d\<rparr>))
     = flywheelStartTime (flywheelControl tA tB tC s)"
  "flywheelTimer (flywheelControl tA tB tC (s\<lparr>db := d\<rparr>))
     = flywheelTimer (flywheelControl tA tB tC s)"
  "flywheelPulse (flywheelControl tA tB tC (s\<lparr>db := d\<rparr>))
     = flywheelPulse (flywheelControl tA tB tC s)"
  by (auto simp: flywheelControl_def Let_def)

lemma flywheelControl_db:
  "flywheelControl tA tB tC (s\<lparr>db := d\<rparr>) = (flywheelControl tA tB tC s)\<lparr>db := d\<rparr>"
proof -
  let ?f = "flywheelControl tA tB tC s"
  have "flywheelControl tA tB tC (s\<lparr>db := d\<rparr>)
      = (s\<lparr>db := d\<rparr>)\<lparr>flywheelStartTime := flywheelStartTime ?f, flywheelTimer := flywheelTimer ?f,
           flywheelPulse := flywheelPulse ?f\<rparr>"
    using flywheelControl_frame[of tA tB tC "s\<lparr>db := d\<rparr>"]
    by (simp only: flywheelControl_db_fields)
  also have "\<dots> = (s\<lparr>flywheelStartTime := flywheelStartTime ?f, flywheelTimer := flywheelTimer ?f,
           flywheelPulse := flywheelPulse ?f\<rparr>)\<lparr>db := d\<rparr>"
    by simp
  also have "\<dots> = ?f\<lparr>db := d\<rparr>"
    by (rule arg_cong[where f = "\<lambda>x. x\<lparr>db := d\<rparr>"]) (rule flywheelControl_frame[symmetric])
  finally show ?thesis .
qed

lemma fireControl_db:
  "fireControl (s\<lparr>db := d\<rparr>) = map_option (\<lambda>s'. s'\<lparr>db := d\<rparr>) (fireControl s)"
  by (cases "triggerPinState s"; cases "lastTriggerPinState s"; cases "ejectPinState s";
      cases "magazinePinState s"; cases "shotCount (unat (shotMode s))";
      simp add: fireControl_def Let_def)

lemma latch_db: "latch e p tr r (s\<lparr>db := d\<rparr>) = (latch e p tr r s)\<lparr>db := d\<rparr>"
  by (simp add: latch_def)

lemma control_db: "control c (s\<lparr>db := d\<rparr>) = map_option (\<lambda>s'. s'\<lparr>db := d\<rparr>) (control c s)"
  by (simp add: control_def pusherControl_db flywheelControl_db fireControl_db)

lemma run_db: "run ks (s\<lparr>db := d\<rparr>) = map_option (\<lambda>s'. s'\<lparr>db := d\<rparr>) (run ks s)"
proof (induction ks arbitrary: s)
  case Nil
  then show ?case by simp
next
  case (Cons k ks)
  show ?case
    by (cases "control (tClocks k) (latch (tEject k) (tPosition k) (tTrigger k) (tReady k) s)")
       (simp_all add: latch_db control_db Cons.IH)
qed

lemma control_keeps_db: "control c s = Some u \<Longrightarrow> db u = db s"
proof -
  assume u: "control c s = Some u"
  have "control c (s\<lparr>db := db s\<rparr>) = map_option (\<lambda>x. x\<lparr>db := db s\<rparr>) (control c s)"
    by (rule control_db)
  then have "u = u\<lparr>db := db s\<rparr>" using u by simp
  then have "db u = db (u\<lparr>db := db s\<rparr>)" by simp
  then show ?thesis by simp
qed

lemma run_keeps_db: "run ks s = Some v \<Longrightarrow> db v = db s"
proof -
  assume v: "run ks s = Some v"
  have "run ks (s\<lparr>db := db s\<rparr>) = map_option (\<lambda>x. x\<lparr>db := db s\<rparr>) (run ks s)"
    by (rule run_db)
  then have "v = v\<lparr>db := db s\<rparr>" using v by simp
  then have "db v = db (v\<lparr>db := db s\<rparr>)" by simp
  then show ?thesis by simp
qed

lemma loop_tick:
  "\<exists>(k :: tick) d. tClocks k = ctl inp \<and>
     loop inp s = control (tClocks k) (latch (tEject k) (tPosition k) (tTrigger k) (tReady k) (s\<lparr>db := d\<rparr>))"
proof -
  obtain e p tr r d where rd: "readInputs inp s = latch e p tr r (s\<lparr>db := d\<rparr>)"
    by (simp add: readInputs_def Let_def split_def)
  let ?k = "\<lparr>tEject = e, tPosition = p, tTrigger = tr, tReady = r, tClocks = ctl inp\<rparr> :: tick"
  show ?thesis
    apply (rule exI[of _ ?k])
    apply (rule exI[of _ d])
    using rd apply (simp add: loop_def)
    done
qed

text \<open>
  Every execution of \<open>loop\<close> is an execution at the level of the debounced signals, with
  the same clock readings: what is proved of every \<open>run\<close> holds of every sequence of
  ticks of the firmware.
\<close>

lemma loops_run:
  "loops inps s = Some s' \<Longrightarrow>
   \<exists>ks. run ks s = Some (s'\<lparr>db := db s\<rparr>) \<and> map tClocks ks = map ctl inps"
proof (induction inps arbitrary: s)
  case Nil
  then show ?case by (intro exI[of _ "[]"]) auto
next
  case (Cons inp inps)
  from Cons.prems obtain s1 where s1: "loop inp s = Some s1" "loops inps s1 = Some s'"
    by (auto split: option.splits)
  from loop_tick[of inp s] obtain k :: tick and d where k: "tClocks k = ctl inp"
    "loop inp s = control (tClocks k) (latch (tEject k) (tPosition k) (tTrigger k) (tReady k) (s\<lparr>db := d\<rparr>))"
    by blast
  let ?l = "latch (tEject k) (tPosition k) (tTrigger k) (tReady k) s"
  from k(2) s1(1) have "map_option (\<lambda>x. x\<lparr>db := d\<rparr>) (control (tClocks k) ?l) = Some s1"
    by (simp add: latch_db control_db)
  then obtain u where u: "control (tClocks k) ?l = Some u" "s1 = u\<lparr>db := d\<rparr>" by auto
  from Cons.IH[OF s1(2)] obtain ks where ks: "run ks s1 = Some (s'\<lparr>db := db s1\<rparr>)"
    "map tClocks ks = map ctl inps" by blast
  have "run ks (u\<lparr>db := d\<rparr>) = map_option (\<lambda>x. x\<lparr>db := d\<rparr>) (run ks u)" by (rule run_db)
  with ks(1) u(2) obtain v where v: "run ks u = Some v" "s'\<lparr>db := db s1\<rparr> = v\<lparr>db := d\<rparr>" by auto
  have "db ?l = db s" by (simp add: latch_def)
  with control_keeps_db[OF u(1)] have dbu: "db u = db s" by simp
  have dbv: "db v = db u" using v(1) by (rule run_keeps_db)
  have "s'\<lparr>db := db s\<rparr> = (s'\<lparr>db := db s1\<rparr>)\<lparr>db := db s\<rparr>" by simp
  also have "\<dots> = (v\<lparr>db := d\<rparr>)\<lparr>db := db s\<rparr>" using v(2) by simp
  also have "\<dots> = v\<lparr>db := db s\<rparr>" by simp
  also have "\<dots> = v" using dbv dbu by simp
  finally have "v = s'\<lparr>db := db s\<rparr>" by simp
  then have "run (k # ks) s = Some (s'\<lparr>db := db s\<rparr>)" using u(1) v(1) by simp
  moreover have "map tClocks (k # ks) = map ctl (inp # inps)" using k(1) ks(2) by simp
  ultimately show ?case by blast
qed

section \<open>The fire queue over several ticks\<close>

lemma fireControl_held:
  "triggerPinState s \<Longrightarrow> lastTriggerPinState s \<Longrightarrow> interlock s \<Longrightarrow>
   \<exists>s'. fireControl s = Some s'
     \<and> shotsRemaining s' = (if shotsRemaining s \<noteq> 0 \<and> \<not> lastpositionPinState s \<and> positionPinState s
                            then shotsRemaining s - 1 else shotsRemaining s)
     \<and> lastTriggerPinState s' \<and> lastpositionPinState s' = positionPinState s"
  by (simp add: fireControl_def interlock_def Let_def)

lemma fireControl_press:
  "triggerPinState s \<Longrightarrow> \<not> lastTriggerPinState s \<Longrightarrow> interlock s \<Longrightarrow>
   shotCount (unat (shotMode s)) = Some n \<Longrightarrow>
   \<exists>s'. fireControl s = Some s'
     \<and> shotsRemaining s' = (if n \<noteq> 0 \<and> \<not> lastpositionPinState s \<and> positionPinState s
                            then n - 1 else n)
     \<and> lastTriggerPinState s' \<and> lastpositionPinState s' = positionPinState s"
  by (simp add: fireControl_def interlock_def Let_def)

lemma control_held:
  assumes "lastTriggerPinState s"
  shows "\<exists>s'. control c (latch True p True r s) = Some s'
     \<and> shotsRemaining s' = (if shotsRemaining s \<noteq> 0 \<and> \<not> lastpositionPinState s \<and> p
                            then shotsRemaining s - 1 else shotsRemaining s)
     \<and> lastTriggerPinState s' \<and> lastpositionPinState s' = p"
proof -
  let ?l = "latch True p True r s"
  let ?f = "flywheelControl (millisFlywheelA c) (millisFlywheelB c) (millisFlywheelC c)
              (pusherControl (millisPusher c) ?l)"
  have l: "triggerPinState ?l" "lastTriggerPinState ?l" "interlock ?l"
    "shotsRemaining ?l = shotsRemaining s" "lastpositionPinState ?l = lastpositionPinState s"
    "positionPinState ?l = p"
    using assms by (simp_all add: latch_def interlock_def)
  have f: "triggerPinState ?f" "lastTriggerPinState ?f" "interlock ?f"
    using l(1-3) by (simp_all add: flywheelControl_fields pusherControl_fields
        interlock_pusherControl interlock_flywheelControl)
  have g: "shotsRemaining ?f = shotsRemaining s" "lastpositionPinState ?f = lastpositionPinState s"
    "positionPinState ?f = p"
    using l(4-6) by (simp_all only: flywheelControl_fields pusherControl_fields)
  from fireControl_held[OF f] show ?thesis
    unfolding control_def g by blast
qed

lemma control_press:
  assumes "\<not> lastTriggerPinState s" "shotCount (unat (shotMode s)) = Some n"
  shows "\<exists>s'. control c (latch True p True r s) = Some s'
     \<and> shotsRemaining s' = (if n \<noteq> 0 \<and> \<not> lastpositionPinState s \<and> p then n - 1 else n)
     \<and> lastTriggerPinState s' \<and> lastpositionPinState s' = p"
proof -
  let ?l = "latch True p True r s"
  let ?f = "flywheelControl (millisFlywheelA c) (millisFlywheelB c) (millisFlywheelC c)
              (pusherControl (millisPusher c) ?l)"
  have l: "triggerPinState ?l" "\<not> lastTriggerPinState ?l" "interlock ?l"
    "shotMode ?l = shotMode s" "lastpositionPinState ?l = lastpositionPinState s"
    "positionPinState ?l = p"
    using assms by (simp_all add: latch_def interlock_def)
  have f: "triggerPinState ?f" "\<not> lastTriggerPinState ?f" "interlock ?f"
    using l(1-3) by (simp_all add: flywheelControl_fields pusherControl_fields
        interlock_pusherControl interlock_flywheelControl)
  have g: "shotMode ?f = shotMode s" "lastpositionPinState ?f = lastpositionPinState s"
    "positionPinState ?f = p"
    using l(4-6) by (simp_all only: flywheelControl_fields pusherControl_fields)
  have n: "shotCount (unat (shotMode ?f)) = Some n" using assms(2) g(1) by simp
  from fireControl_press[OF f n] show ?thesis
    unfolding control_def g by blast
qed

lemma unat_dec: "n \<noteq> 0 \<Longrightarrow> unat (n - 1 :: u16) = unat n - 1"
  by (simp add: unat_minus_one)

lemma run_held:
  "lastTriggerPinState s \<Longrightarrow> \<forall>k\<in>set ks. tEject k \<and> tTrigger k \<Longrightarrow>
   \<exists>s'. run ks s = Some s'
      \<and> unat (shotsRemaining s') = unat (shotsRemaining s) - risingEdges (lastpositionPinState s) (map tPosition ks)
      \<and> lastTriggerPinState s'
      \<and> lastpositionPinState s' = last (lastpositionPinState s # map tPosition ks)"
proof (induction ks arbitrary: s)
  case Nil
  then show ?case by simp
next
  case (Cons k ks)
  from Cons.prems have k: "tEject k" "tTrigger k" and ks: "\<forall>k\<in>set ks. tEject k \<and> tTrigger k" by auto
  from control_held[OF Cons.prems(1), of "tClocks k" "tPosition k" "tReady k"] obtain s1 where
    s1: "control (tClocks k) (latch True (tPosition k) True (tReady k) s) = Some s1"
      "shotsRemaining s1 = (if shotsRemaining s \<noteq> 0 \<and> \<not> lastpositionPinState s \<and> tPosition k
                            then shotsRemaining s - 1 else shotsRemaining s)"
      "lastTriggerPinState s1" "lastpositionPinState s1 = tPosition k" by blast
  from Cons.IH[OF s1(3) ks] obtain s' where
    s': "run ks s1 = Some s'"
     "unat (shotsRemaining s') = unat (shotsRemaining s1) - risingEdges (lastpositionPinState s1) (map tPosition ks)"
     "lastTriggerPinState s'" "lastpositionPinState s' = last (lastpositionPinState s1 # map tPosition ks)" by blast
  have cnt: "unat (shotsRemaining s1) - risingEdges (tPosition k) (map tPosition ks)
      = unat (shotsRemaining s) - risingEdges (lastpositionPinState s) (map tPosition (k # ks))"
  proof (cases "\<not> lastpositionPinState s \<and> tPosition k")
    case False
    then show ?thesis using s1(2) by auto
  next
    case edge: True
    show ?thesis
    proof (cases "shotsRemaining s = 0")
      case True
      then show ?thesis using s1(2) by simp
    next
      case False
      then have "unat (shotsRemaining s1) = unat (shotsRemaining s) - 1"
        using s1(2) edge by (simp add: unat_dec)
      then show ?thesis using edge by simp
    qed
  qed
  have "run (k # ks) s = Some s'"
    using s1(1) s'(1) k by simp
  moreover have "lastpositionPinState s' = last (lastpositionPinState s # map tPosition (k # ks))"
    using s'(4) s1(4) by simp
  ultimately show ?case using s'(2,3) s1(4) cnt by simp
qed

section \<open>C1: an open interlock stops everything within the tick\<close>

lemma pusherControl_open: "\<not> interlock s \<Longrightarrow> pusherPulse (pusherControl t s) = pusherStopPulse"
  by (auto simp: pusherControl_def interlock_def)

lemma flywheelControl_open:
  "\<not> interlock s \<Longrightarrow> flywheelPulse (flywheelControl tA tB tC s) = flywheelStopPulse"
  by (auto simp: flywheelControl_def interlock_def Let_def)

lemma fireControl_open:
  "\<not> interlock s \<Longrightarrow> \<exists>s'. fireControl s = Some s' \<and> shotsRemaining s' = 0
      \<and> pusherPulse s' = pusherPulse s \<and> flywheelPulse s' = flywheelPulse s"
  by (auto simp: fireControl_def interlock_def Let_def)

lemma control_open:
  assumes op: "\<not> interlock s"
  shows "\<exists>s'. control c s = Some s' \<and> pusherPulse s' = pusherStopPulse
        \<and> flywheelPulse s' = flywheelStopPulse \<and> shotsRemaining s' = 0"
proof -
  let ?p = "pusherControl (millisPusher c) s"
  let ?f = "flywheelControl (millisFlywheelA c) (millisFlywheelB c) (millisFlywheelC c) ?p"
  have "\<not> interlock ?f"
    using op by (simp add: interlock_pusherControl interlock_flywheelControl)
  from fireControl_open[OF this] obtain s' where
    s': "fireControl ?f = Some s'" "shotsRemaining s' = 0"
        "pusherPulse s' = pusherPulse ?f" "flywheelPulse s' = flywheelPulse ?f" by blast
  have "pusherPulse ?f = pusherStopPulse"
    using op by (simp add: pusherControl_open flywheelControl_fields)
  moreover have "flywheelPulse ?f = flywheelStopPulse"
    using op by (simp add: flywheelControl_open interlock_pusherControl)
  ultimately show ?thesis using s' by (simp add: control_def)
qed

text \<open>
  C1. On every tick whose interlock is not satisfied (eject/safety open or magazine
  absent), whatever the state before the tick and whatever the clock reads, the three
  controllers end the tick with the pusher command Stop, the flywheel command Stop and the
  remaining-shot count zero. The first half is about the three controllers run on any
  state, the second about a whole tick of \<open>loop\<close>, whose interlock is the one of the
  values just read.
\<close>

theorem C1_interlock_open_stops_everything:
  "(\<not> interlock s \<longrightarrow>
      (\<exists>s'. control c s = Some s' \<and> pusherPulse s' = pusherStopPulse
           \<and> flywheelPulse s' = flywheelStopPulse \<and> shotsRemaining s' = 0))
   \<and> (\<not> interlock (readInputs inp s) \<longrightarrow>
      (\<exists>s'. loop inp s = Some s' \<and> pusherPulse s' = pusherStopPulse
           \<and> flywheelPulse s' = flywheelStopPulse \<and> shotsRemaining s' = 0))"
  using control_open[of s c] control_open[of "readInputs inp s" "ctl inp"]
  by (simp add: loop_def)

theorem C1_witness:
  "\<not> interlock eject_opened \<and> pusherPulse eject_opened = pusherRunPulse
   \<and> flywheelPulse eject_opened = flywheelRunPulse \<and> shotsRemaining eject_opened = 2
   \<and> (\<exists>s'. control (allClocks 1000) eject_opened = Some s' \<and> pusherPulse s' = pusherStopPulse
           \<and> flywheelPulse s' = flywheelStopPulse \<and> shotsRemaining s' = 0)"
  using C1_interlock_open_stops_everything[of eject_opened "allClocks 1000"]
  by (simp add: interlock_def eject_opened_def init_def pulse_defs)

section \<open>C2: the inputs v0.9.0 does not read\<close>

lemma loop_ignores_pins:
  "loop (inp\<lparr>digitalRead := (digitalRead inp)(magazinePin := x, disclPin := y, discrPin := z)\<rparr>) s
     = loop inp s"
  by (simp add: loop_def readInputs_def Let_def split_def pin_defs)

text \<open>
  C2. In v0.9.0 every tick assigns the constant true to the magazine state and to both
  chamber-sensor states: after the inputs are read the three are true whatever the pins
  read, so the interlock of the tick is the debounced eject/safety signal alone, the
  condition of the pusher's brake branch (both chamber states false) is false, the
  magazine state is still true when \<^verbatim>\<open>flywheelControl\<close> and \<^verbatim>\<open>fireControl\<close>
  read it, and the result of the whole tick does not depend on what the magazine and
  chamber pins read.
\<close>

theorem C2_magazine_and_chamber_inputs_constant:
  "magazinePinState (readInputs inp s) \<and> disclPinState (readInputs inp s)
   \<and> discrPinState (readInputs inp s)
   \<and> interlock (readInputs inp s) = ejectPinState (readInputs inp s)
   \<and> (\<not> disclPinState (readInputs inp s) \<and> \<not> discrPinState (readInputs inp s)) = False
   \<and> magazinePinState (pusherControl t (readInputs inp s))
   \<and> magazinePinState (flywheelControl tA tB tC (pusherControl t (readInputs inp s)))
   \<and> loop (inp\<lparr>digitalRead := (digitalRead inp)(magazinePin := x, disclPin := y, discrPin := z)\<rparr>) s
       = loop inp s"
  using loop_ignores_pins[of inp x y z s]
  by (simp add: readInputs_pins interlock_def pusherControl_fields flywheelControl_fields)

theorem C2_witness:
  "magazinePinState (readInputs (pressed_in 0) init) \<and> \<not> magazinePinState init
   \<and> disclPinState (readInputs (pressed_in 0) init)
   \<and> discrPinState (readInputs (pressed_in 0) init)
   \<and> loop ((pressed_in 0)\<lparr>digitalRead := (digitalRead (pressed_in 0))
               (magazinePin := False, disclPin := False, discrPin := False)\<rparr>) init
       = loop (pressed_in 0) init"
  using C2_magazine_and_chamber_inputs_constant[of "pressed_in 0" init 0 0 0 0 False False False]
  by (simp add: init_def)

section \<open>C3: the full-auto shot count\<close>

lemma fireControl_v050_held:
  "triggerPinState s \<Longrightarrow> lastTriggerPinState s \<Longrightarrow> interlock s \<Longrightarrow>
   \<exists>s'. fireControl_v050 s = Some s'
     \<and> shotsRemaining s' = (if shotsRemaining s \<noteq> 0 \<and> lastDiscState s
                                \<and> (\<not> disclPinState s \<or> \<not> discrPinState s)
                            then shotsRemaining s - 1 else shotsRemaining s)"
  by (simp add: fireControl_v050_def interlock_def Let_def)

text \<open>
  C3, in the form that holds. The code has no unbounded sentinel: 65535, the depth of mode 2, is
  counted down like any other value. In v0.9.0, with the trigger held and the interlock
  satisfied on every tick, a queue that holds 65535 holds 65535 minus the number of
  rising edges of the position signal after any sequence of ticks (and stays at zero once
  there), so it is non-zero through the first 65534 completed strokes and zero from the
  65535th on. In v0.5.0, under the same conditions, a tick on which the chamber sensors
  were both active on the tick before and are no longer both active takes the queue from
  65535 to 65534.
\<close>

theorem C3_full_auto_counts_down:
  "(lastTriggerPinState s \<and> (\<forall>k\<in>set ks. tEject k \<and> tTrigger k) \<and> shotsRemaining s = 65535 \<longrightarrow>
      (\<exists>s'. run ks s = Some s'
         \<and> unat (shotsRemaining s') = 65535 - risingEdges (lastpositionPinState s) (map tPosition ks)
         \<and> (shotsRemaining s' = 0) = (65535 \<le> risingEdges (lastpositionPinState s) (map tPosition ks))))
   \<and> (triggerPinState s \<and> lastTriggerPinState s \<and> interlock s \<and> shotsRemaining s = 65535
        \<and> lastDiscState s \<and> \<not> (disclPinState s \<and> discrPinState s) \<longrightarrow>
      (\<exists>s'. fireControl_v050 s = Some s' \<and> shotsRemaining s' = 65534))"
proof (intro conjI impI)
  assume a: "lastTriggerPinState s \<and> (\<forall>k\<in>set ks. tEject k \<and> tTrigger k) \<and> shotsRemaining s = 65535"
  then have "lastTriggerPinState s" "\<forall>k\<in>set ks. tEject k \<and> tTrigger k" by simp_all
  from run_held[OF this] obtain s' where
    s': "run ks s = Some s'"
    "unat (shotsRemaining s') = unat (shotsRemaining s) - risingEdges (lastpositionPinState s) (map tPosition ks)"
    by blast
  from a have "unat (shotsRemaining s) = 65535" by simp
  with s'(2) have u: "unat (shotsRemaining s') = 65535 - risingEdges (lastpositionPinState s) (map tPosition ks)"
    by simp
  have "(shotsRemaining s' = 0) = (unat (shotsRemaining s') = 0)" by (simp add: unat_eq_0)
  also have "\<dots> = (65535 \<le> risingEdges (lastpositionPinState s) (map tPosition ks))"
    using u by auto
  finally show "\<exists>s'. run ks s = Some s'
         \<and> unat (shotsRemaining s') = 65535 - risingEdges (lastpositionPinState s) (map tPosition ks)
         \<and> (shotsRemaining s' = 0) = (65535 \<le> risingEdges (lastpositionPinState s) (map tPosition ks))"
    using s'(1) u by blast
next
  assume a: "triggerPinState s \<and> lastTriggerPinState s \<and> interlock s \<and> shotsRemaining s = 65535
        \<and> lastDiscState s \<and> \<not> (disclPinState s \<and> discrPinState s)"
  then have "triggerPinState s" "lastTriggerPinState s" "interlock s" by simp_all
  from fireControl_v050_held[OF this] a
  show "\<exists>s'. fireControl_v050 s = Some s' \<and> shotsRemaining s' = 65534" by auto
qed

theorem C3_witness:
  "lastTriggerPinState auto_firing \<and> shotsRemaining auto_firing = 65535
   \<and> (\<exists>s'. run [held 1000 False, held 1010 True, held 1020 False, held 1030 True] auto_firing
              = Some s' \<and> unat (shotsRemaining s') = 65533 \<and> shotsRemaining s' \<noteq> 0)
   \<and> triggerPinState auto_v050 \<and> interlock auto_v050 \<and> lastDiscState auto_v050
   \<and> (\<exists>s'. fireControl_v050 auto_v050 = Some s' \<and> shotsRemaining s' = 65534)"
  using C3_full_auto_counts_down[of auto_firing
      "[held 1000 False, held 1010 True, held 1020 False, held 1030 True]"]
    C3_full_auto_counts_down[of auto_v050 "[]"]
  by (simp add: auto_firing_def auto_v050_def init_v050_def init_def held_def interlock_def)

text \<open>
  The claim as stated fails. v0.9.0 with mode 2 selected: the tick on which the trigger
  is pressed loads 65535, and the next tick, on which the position signal rises with the
  trigger still held, leaves 65534. v0.5.0 likewise, on the falling edge of a chamber
  sensor.
\<close>

theorem C3_counterexample:
  "map_option shotsRemaining (run [held 1000 False] auto_mode) = Some 65535
   \<and> map_option shotsRemaining (run [held 1000 False, held 1010 True] auto_mode) = Some 65534
   \<and> map_option shotsRemaining (fireControl_v050 auto_v050) = Some 65534"
  by (simp add: auto_mode_def auto_v050_def init_v050_def init_def held_def allClocks_def
      control_def latch_def pusherControl_def flywheelControl_def fireControl_def
      fireControl_v050_def Let_def shotCount_def const_defs pulse_defs)

section \<open>C4: the spool gate at home\<close>

lemma pusherControl_at_home:
  "interlock s \<Longrightarrow> positionPinState s \<Longrightarrow> shotsRemaining s \<noteq> 0 \<Longrightarrow>
   disclPinState s \<and> discrPinState s \<Longrightarrow> flywheelStartTime s \<noteq> 0 \<Longrightarrow>
   (t - flywheelStartTime s < flywheelSpoolTime \<longrightarrow> pusherControl t s = s)
   \<and> (flywheelSpoolTime \<le> t - flywheelStartTime s \<longrightarrow>
        pusherPulse (pusherControl t s) = pusherRunPulse)"
  by (simp add: pusherControl_def interlock_def not_le[symmetric])

lemma pusherControl_v050_at_home:
  "interlock s \<Longrightarrow> positionPinState s \<Longrightarrow>
   pusherPulse (pusherControl_v050 tA tB tC s) = pusherRunPulse_v050"
  by (auto simp: pusherControl_v050_def interlock_def Let_def)

text \<open>
  C4, for v0.9.0. In v0.9.0, on every tick on which the interlock is satisfied, the
  mechanism is at home, the queue is non-zero, both chamber sensors show a projectile and
  the spin-up timestamp is set: while the time since spin-up is below the spool time
  \<^verbatim>\<open>pusherControl\<close> changes nothing, so the pusher command is the one of the previous
  tick and does not become Run; once the spool time has elapsed the command is Run.

  v0.5.0 has no such gate: on every tick on which the interlock is satisfied and the
  position signal is active, whatever the queue, the chamber sensors, the spin-up
  timestamp and the clock readings, its \<^verbatim>\<open>pusherControl\<close> commands Run.
\<close>

theorem C4_pusher_waits_for_spool:
  "(interlock s \<and> positionPinState s \<and> shotsRemaining s \<noteq> 0
      \<and> disclPinState s \<and> discrPinState s \<and> flywheelStartTime s \<noteq> 0 \<longrightarrow>
      (t - flywheelStartTime s < flywheelSpoolTime \<longrightarrow> pusherControl t s = s)
      \<and> (flywheelSpoolTime \<le> t - flywheelStartTime s \<longrightarrow>
           pusherPulse (pusherControl t s) = pusherRunPulse))
   \<and> (interlock s \<and> positionPinState s \<longrightarrow>
      pusherPulse (pusherControl_v050 tA tB tC s) = pusherRunPulse_v050)"
  using pusherControl_at_home[of s t] pusherControl_v050_at_home[of s tA tB tC]
  by blast

theorem C4_witness:
  "interlock spooling \<and> positionPinState spooling \<and> shotsRemaining spooling \<noteq> 0
   \<and> disclPinState spooling \<and> discrPinState spooling \<and> flywheelStartTime spooling \<noteq> 0
   \<and> 1100 - flywheelStartTime spooling < flywheelSpoolTime
   \<and> pusherPulse (pusherControl 1100 spooling) = pusherReturnPulse
   \<and> pusherPulse (pusherControl 1250 spooling) = pusherRunPulse
   \<and> interlock (homing_v050\<lparr>shotsRemaining := 0, flywheelStartTime := 0\<rparr>)
   \<and> positionPinState (homing_v050\<lparr>shotsRemaining := 0, flywheelStartTime := 0\<rparr>)
   \<and> pusherPulse (pusherControl_v050 40 41 42
         (homing_v050\<lparr>shotsRemaining := 0, flywheelStartTime := 0\<rparr>)) = pusherRunPulse_v050"
  using C4_pusher_waits_for_spool[of spooling 1100 0 0 0]
    C4_pusher_waits_for_spool[of spooling 1250 0 0 0]
    C4_pusher_waits_for_spool[of "homing_v050\<lparr>shotsRemaining := 0, flywheelStartTime := 0\<rparr>"
      0 40 41 42]
  by (simp add: interlock_def spooling_def homing_v050_def init_v050_def init_def
      flywheelSpoolTime_def pulse_defs)

text \<open>
  The claim as stated fails on v0.5.0, whose \<^verbatim>\<open>pusherControl\<close> runs the pusher
  whenever the position signal is active and the interlock satisfied: in
  \<open>homing_v050\<close> every premise of the claim holds (spin-up 10 ms ago, spool time 500 ms),
  the pusher was last commanded Stop, and the tick commands Run.
\<close>

theorem C4_counterexample_v050:
  "interlock homing_v050 \<and> positionPinState homing_v050 \<and> shotsRemaining homing_v050 = 1
   \<and> disclPinState homing_v050 \<and> discrPinState homing_v050
   \<and> flywheelStartTime homing_v050 = 20
   \<and> (30 :: u32) - flywheelStartTime homing_v050 < flywheelSpoolTime_v050
   \<and> pusherPulse homing_v050 = pusherStopPulse
   \<and> pusherPulse (pusherControl_v050 30 30 30 homing_v050) = pusherRunPulse_v050"
  by (simp add: interlock_def homing_v050_def init_v050_def init_def pusherControl_v050_def
      Let_def flywheelSpoolTime_v050_def pusherDiscDelay_v050_def pusherStopPulse_def
      pusherRunPulse_v050_def)

section \<open>C5: the chamber-cleared brake\<close>

lemma pusherControl_midstroke:
  "interlock s \<Longrightarrow> \<not> positionPinState s \<Longrightarrow> shotsRemaining s \<noteq> 0 \<Longrightarrow>
   pusherPulse (pusherControl t s)
     = (if \<not> disclPinState s \<and> \<not> discrPinState s then pusherStopPulse
        else if flywheelStartTime s \<noteq> 0 \<and> flywheelSpoolTime \<le> t - flywheelStartTime s
             then (if shotsRemaining s = 1 \<and> 1 \<le> shotMode s
                   then pusherReturnPulse else pusherRunPulse)
        else pusherPulse s)"
  by (simp add: pusherControl_def interlock_def Let_def)

lemma pusherControl_v050_midstroke:
  "interlock s \<Longrightarrow> \<not> positionPinState s \<Longrightarrow> shotsRemaining s \<noteq> 0 \<Longrightarrow>
   pusherPulse (pusherControl_v050 tA tB tC s)
     = (if (\<not> disclPinState s \<or> \<not> discrPinState s)
            \<and> pusherDiscDelay_v050 \<le> tC - (if lastPositionPinState s then tA else positionPinTimer s)
        then pusherStopPulse
        else if flywheelSpoolTime_v050 \<le> tB - flywheelStartTime s then pusherRunPulse_v050
        else pusherPulse s)"
  by (auto simp: pusherControl_v050_def interlock_def Let_def)

text \<open>
  C5, in the form that holds. On every tick on which the interlock is satisfied, the mechanism is not
  at home and the queue is non-zero, \<^verbatim>\<open>pusherControl\<close> of v0.9.0 ends with the command
  Stop when both chamber states are false (the conjunction of the two, with no delay);
  when they are not both false the command is Return or Run if the flywheel has spooled
  and is otherwise the command of the previous tick. So the command is Stop exactly when
  both chamber states are false, or the flywheel has not spooled and the previous command
  was Stop. In v0.5.0 the brake instead fires when either chamber state is false and
  \<^verbatim>\<open>pusherDiscDelay\<close> has elapsed since the position last changed.
\<close>

theorem C5_brake_condition:
  "interlock s \<Longrightarrow> \<not> positionPinState s \<Longrightarrow> shotsRemaining s \<noteq> 0 \<Longrightarrow>
   pusherPulse (pusherControl t s)
     = (if \<not> disclPinState s \<and> \<not> discrPinState s then pusherStopPulse
        else if flywheelStartTime s \<noteq> 0 \<and> flywheelSpoolTime \<le> t - flywheelStartTime s
             then (if shotsRemaining s = 1 \<and> 1 \<le> shotMode s
                   then pusherReturnPulse else pusherRunPulse)
        else pusherPulse s)
   \<and> (pusherPulse (pusherControl t s) = pusherStopPulse)
       = ((\<not> disclPinState s \<and> \<not> discrPinState s)
          \<or> (\<not> (flywheelStartTime s \<noteq> 0 \<and> flywheelSpoolTime \<le> t - flywheelStartTime s)
              \<and> pusherPulse s = pusherStopPulse))
   \<and> pusherPulse (pusherControl_v050 tA tB tC s)
     = (if (\<not> disclPinState s \<or> \<not> discrPinState s)
            \<and> pusherDiscDelay_v050 \<le> tC - (if lastPositionPinState s then tA else positionPinTimer s)
        then pusherStopPulse
        else if flywheelSpoolTime_v050 \<le> tB - flywheelStartTime s then pusherRunPulse_v050
        else pusherPulse s)"
  using pusherControl_midstroke[of s t] pusherControl_v050_midstroke[of s tA tB tC]
  by (simp add: pulse_defs)

theorem C5_witness:
  "interlock third_tick \<and> \<not> positionPinState third_tick \<and> shotsRemaining third_tick \<noteq> 0
   \<and> pusherPulse (pusherControl 20 third_tick) = pusherPulse third_tick
   \<and> pusherPulse (pusherControl 1000 (third_tick\<lparr>flywheelStartTime := 20\<rparr>)) = pusherRunPulse
   \<and> pusherPulse (pusherControl 1000 (third_tick\<lparr>disclPinState := False, discrPinState := False\<rparr>))
       = pusherStopPulse"
  using C5_brake_condition[of third_tick 20]
    C5_brake_condition[of "third_tick\<lparr>flywheelStartTime := 20\<rparr>" 1000]
    C5_brake_condition[of "third_tick\<lparr>disclPinState := False, discrPinState := False\<rparr>" 1000]
  by (simp add: interlock_def third_tick_fields const_defs)

text \<open>
  The claim as stated fails on v0.9.0. Power up with eject/safety closed, the trigger held
  and the mechanism away from home, and tick at 0, 10 and 20 ms: on the third tick the
  interlock is satisfied, the mechanism is not at home, three shots are queued and both
  chamber states are true, yet the pusher command is Stop, retained from the tick before
  because the flywheel has not spooled.
\<close>

theorem C5_counterexample:
  "loops [pressed_in 0, pressed_in 10] init \<noteq> None
   \<and> interlock third_tick \<and> \<not> positionPinState third_tick \<and> shotsRemaining third_tick = 3
   \<and> disclPinState third_tick \<and> discrPinState third_tick
   \<and> pusherPulse (pusherControl 20 third_tick) = pusherStopPulse"
  using third_tick_fields
  by (simp add: interlock_def pusherControl_def const_defs pulse_defs)

section \<open>C6: the debouncer\<close>

lemma polls_append: "polls dl pin (ps @ qs) d = polls dl pin qs (polls dl pin ps d)"
  by (induction ps arbitrary: d) auto

lemma debounce_lastState:
  "lastState (snd (debounceInput dl pin l a b d)) pin = (\<not> l)"
  by (simp add: debounceInput_def Let_def)

lemma debounce_timer:
  "timer (snd (debounceInput dl pin l a b d)) pin
     = (if (\<not> l) \<noteq> lastState d pin then a else timer d pin)"
  by (simp add: debounceInput_def Let_def)

lemma debounce_out:
  "fst (debounceInput dl pin l a b d) = currentState (snd (debounceInput dl pin l a b d)) pin"
  by (simp add: debounceInput_def Let_def)

lemma debounce_current:
  "currentState (snd (debounceInput dl pin l a b d)) pin =
     (if dl \<le> b - (if (\<not> l) \<noteq> lastState d pin then a else timer d pin)
      then \<not> l else currentState d pin)"
  by (simp add: debounceInput_def Let_def)

lemma glitch_rejected:
  assumes "(\<not> l1) \<noteq> lastState d pin" "b1 - a1 < dl"
      and "(\<not> l2) = lastState d pin" "b2 - a2 < dl"
  shows "fst (debounceInput dl pin l1 a1 b1 d) = currentState d pin
       \<and> fst (debounceInput dl pin l2 a2 b2 (snd (debounceInput dl pin l1 a1 b1 d)))
           = currentState d pin"
  using assms by (simp add: debounce_out debounce_current debounce_lastState not_le[symmetric])

lemma stampedBy_snoc_new: "(\<not> level x) = v \<Longrightarrow> stampedBy (ps @ [x]) v (clockA x)"
  unfolding stampedBy_def
  by (rule exI[of _ ps], rule exI[of _ x], rule exI[of _ "[]"]) simp

lemma stampedBy_snoc_same:
  assumes "stampedBy ps v a" "(\<not> level x) = v"
  shows "stampedBy (ps @ [x]) v a"
proof -
  from assms(1) obtain qs q rs where o: "ps = qs @ q # rs"
     "\<forall>x \<in> set (q # rs). (\<not> level x) = v" "clockA q = a"
    unfolding stampedBy_def by blast
  have "ps @ [x] = qs @ q # (rs @ [x])" using o(1) by simp
  moreover have "\<forall>y \<in> set (q # (rs @ [x])). (\<not> level y) = v" using o(2) assms(2) by auto
  ultimately show ?thesis unfolding stampedBy_def using o(3) by blast
qed

text \<open>
  What the stability timer and the last sample of a pin are after any sequence of polls:
  either the polls end with a run of equal samples whose first poll set the timer, or no
  poll saw a change and both are as they were.
\<close>

lemma polls_stamp:
  "stampedBy ps (lastState (polls dl pin ps d) pin) (timer (polls dl pin ps d) pin)
   \<or> ((\<forall>x \<in> set ps. (\<not> level x) = lastState d pin)
       \<and> lastState (polls dl pin ps d) pin = lastState d pin
       \<and> timer (polls dl pin ps d) pin = timer d pin)"
proof (induction ps rule: rev_induct)
  case Nil
  then show ?case by simp
next
  case (snoc x ps)
  let ?d = "polls dl pin ps d"
  let ?d' = "polls dl pin (ps @ [x]) d"
  have step: "?d' = snd (debounceInput dl pin (level x) (clockA x) (clockB x) ?d)"
    by (simp add: polls_append)
  have ls: "lastState ?d' pin = (\<not> level x)"
    unfolding step by (rule debounce_lastState)
  show ?case
  proof (cases "(\<not> level x) \<noteq> lastState ?d pin")
    case True
    then have "timer ?d' pin = clockA x" unfolding step by (simp add: debounce_timer)
    with ls stampedBy_snoc_new[of x "\<not> level x" ps] show ?thesis by simp
  next
    case False
    then have tm: "timer ?d' pin = timer ?d pin" unfolding step by (simp add: debounce_timer)
    from False have eq: "lastState ?d' pin = lastState ?d pin" using ls by simp
    from snoc.IH show ?thesis
    proof
      assume "stampedBy ps (lastState ?d pin) (timer ?d pin)"
      from stampedBy_snoc_same[OF this, of x] False
      have "stampedBy (ps @ [x]) (lastState ?d pin) (timer ?d pin)" by simp
      then show ?thesis unfolding tm eq by (rule disjI1)
    next
      assume B: "(\<forall>x \<in> set ps. (\<not> level x) = lastState d pin)
       \<and> lastState ?d pin = lastState d pin \<and> timer ?d pin = timer d pin"
      have "\<forall>y \<in> set (ps @ [x]). (\<not> level y) = lastState d pin"
        using B False by auto
      moreover have "lastState ?d' pin = lastState d pin" using eq B by simp
      moreover have "timer ?d' pin = timer d pin" using tm B by simp
      ultimately show ?thesis by blast
    qed
  qed
qed

lemma stable_window:
  assumes chg: "fst (debounceInput dl pin l a b (polls dl pin ps d)) \<noteq> currentState (polls dl pin ps d) pin"
      and intra: "b - a < dl"
  shows "fst (debounceInput dl pin l a b (polls dl pin ps d)) = (\<not> l)
     \<and> ((\<exists>qs q rs. ps = qs @ q # rs \<and> (\<forall>x \<in> set (q # rs). level x = l) \<and> dl \<le> b - clockA q)
        \<or> ((\<forall>x \<in> set ps. level x = l) \<and> lastState d pin = (\<not> l) \<and> dl \<le> b - timer d pin))"
proof -
  let ?d = "polls dl pin ps d"
  from chg have c: "dl \<le> b - (if (\<not> l) \<noteq> lastState ?d pin then a else timer ?d pin)"
    and out: "fst (debounceInput dl pin l a b ?d) = (\<not> l)"
    by (simp_all add: debounce_out debounce_current split: if_splits)
  have nochange: "(\<not> l) = lastState ?d pin"
  proof (rule ccontr)
    assume "(\<not> l) \<noteq> lastState ?d pin"
    with c have "dl \<le> b - a" by simp
    with intra show False by simp
  qed
  with c have el: "dl \<le> b - timer ?d pin" by simp
  from polls_stamp[of ps dl pin d] have
    "(\<exists>qs q rs. ps = qs @ q # rs \<and> (\<forall>x \<in> set (q # rs). level x = l) \<and> dl \<le> b - clockA q)
        \<or> ((\<forall>x \<in> set ps. level x = l) \<and> lastState d pin = (\<not> l) \<and> dl \<le> b - timer d pin)"
  proof
    assume "stampedBy ps (lastState ?d pin) (timer ?d pin)"
    then obtain qs q rs where o: "ps = qs @ q # rs"
        "\<forall>x \<in> set (q # rs). (\<not> level x) = lastState ?d pin" "clockA q = timer ?d pin"
      unfolding stampedBy_def by blast
    from o(2) nochange have "\<forall>x \<in> set (q # rs). level x = l" by auto
    moreover have "dl \<le> b - clockA q" using el o(3) by simp
    ultimately show ?thesis using o(1) by blast
  next
    assume B: "(\<forall>x \<in> set ps. (\<not> level x) = lastState d pin)
       \<and> lastState ?d pin = lastState d pin \<and> timer ?d pin = timer d pin"
    with nochange have "\<forall>x \<in> set ps. level x = l" by auto
    moreover have "lastState d pin = (\<not> l)" using B nochange by simp
    moreover have "dl \<le> b - timer d pin" using B el by simp
    ultimately show ?thesis by blast
  qed
  with out show ?thesis by (rule conjI)
qed

lemma polls_current_same:
  "\<forall>x \<in> set ps. (\<not> level x) = v \<Longrightarrow> currentState d pin = v \<Longrightarrow>
   currentState (polls dl pin ps d) pin = v"
proof (induction ps arbitrary: d)
  case Nil
  then show ?case by simp
next
  case (Cons q qs)
  have "currentState (snd (debounceInput dl pin (level q) (clockA q) (clockB q) d)) pin = v"
    using Cons.prems by (simp add: debounce_current)
  with Cons show ?case by simp
qed

lemma stable_window_from_rest:
  assumes rest: "currentState d pin = lastState d pin"
      and chg: "fst (debounceInput dl pin l a b (polls dl pin ps d)) \<noteq> currentState (polls dl pin ps d) pin"
      and intra: "b - a < dl"
  shows "\<exists>qs q rs. ps = qs @ q # rs \<and> (\<forall>x \<in> set (q # rs). level x = l) \<and> dl \<le> b - clockA q"
proof -
  from stable_window[OF chg intra] have out: "fst (debounceInput dl pin l a b (polls dl pin ps d)) = (\<not> l)"
    and alt: "(\<exists>qs q rs. ps = qs @ q # rs \<and> (\<forall>x \<in> set (q # rs). level x = l) \<and> dl \<le> b - clockA q)
        \<or> ((\<forall>x \<in> set ps. level x = l) \<and> lastState d pin = (\<not> l) \<and> dl \<le> b - timer d pin)"
    by simp_all
  from alt show ?thesis
  proof
    assume B: "(\<forall>x \<in> set ps. level x = l) \<and> lastState d pin = (\<not> l) \<and> dl \<le> b - timer d pin"
    then have "\<forall>x \<in> set ps. (\<not> level x) = (\<not> l)" by simp
    moreover have "currentState d pin = (\<not> l)" using rest B by simp
    ultimately have "currentState (polls dl pin ps d) pin = (\<not> l)" by (rule polls_current_same)
    with out chg show ?thesis by simp
  qed
qed

text \<open>
  C6, for every pin and every value of \<^verbatim>\<open>debounceDelay\<close> (so for both revisions), from
  any state of the debouncer and for any clock readings, monotonic or not, provided the
  clock advances by less than the debounce window between the two readings of one call.

  First: a single-poll glitch (a poll whose sample differs from the last one, followed by
  a poll whose sample is the earlier one again) leaves the value returned by both polls
  equal to the value committed before.

  Second: whenever a poll returns a value that differs from the value committed before
  it, that value is the poll's sample, and either the polls so far end with a run of polls
  that all sampled this same value and whose first clock reading lies at least the window
  before the current reading, or no poll of the sequence saw a change, the value is the
  one last sampled before the sequence, and the timer the sequence started with lies at
  least the window back.

  Third: when the sequence starts from rest (committed value equal to the last sample, as
  at power-up), only the first of these two cases remains: a value is returned for the
  first time only after a run of polls that all sampled it and that spans the window.
\<close>

theorem C6_debounce_glitch_and_window:
  "((\<not> l1) \<noteq> lastState d pin \<and> b1 - a1 < dl \<and> (\<not> l2) = lastState d pin \<and> b2 - a2 < dl \<longrightarrow>
      fst (debounceInput dl pin l1 a1 b1 d) = currentState d pin
      \<and> fst (debounceInput dl pin l2 a2 b2 (snd (debounceInput dl pin l1 a1 b1 d)))
          = currentState d pin)
   \<and> (fst (debounceInput dl pin l a b (polls dl pin ps d)) \<noteq> currentState (polls dl pin ps d) pin
       \<and> b - a < dl \<longrightarrow>
      fst (debounceInput dl pin l a b (polls dl pin ps d)) = (\<not> l)
      \<and> ((\<exists>qs q rs. ps = qs @ q # rs \<and> (\<forall>x \<in> set (q # rs). level x = l) \<and> dl \<le> b - clockA q)
         \<or> ((\<forall>x \<in> set ps. level x = l) \<and> lastState d pin = (\<not> l) \<and> dl \<le> b - timer d pin)))
   \<and> (currentState d pin = lastState d pin
       \<and> fst (debounceInput dl pin l a b (polls dl pin ps d)) \<noteq> currentState (polls dl pin ps d) pin
       \<and> b - a < dl \<longrightarrow>
      (\<exists>qs q rs. ps = qs @ q # rs \<and> (\<forall>x \<in> set (q # rs). level x = l) \<and> dl \<le> b - clockA q))"
  using glitch_rejected[of l1 d pin b1 a1 dl l2 b2 a2] stable_window[of dl pin l a b ps d]
    stable_window_from_rest[of d pin dl l a b ps]
  by blast

theorem C6_witness:
  "((\<not> False) \<noteq> lastState (db init) triggerPin \<and> (100 :: u32) - 100 < debounceDelay
    \<and> (\<not> True) = lastState (db init) triggerPin \<and> (101 :: u32) - 101 < debounceDelay)
   \<and> (fst (debounceInput debounceDelay triggerPin False 100 100 (db init))
         = currentState (db init) triggerPin
      \<and> fst (debounceInput debounceDelay triggerPin True 101 101
               (snd (debounceInput debounceDelay triggerPin False 100 100 (db init))))
         = currentState (db init) triggerPin)
   \<and> (currentState (db init) triggerPin = lastState (db init) triggerPin
      \<and> fst (debounceInput debounceDelay triggerPin False 106 106
              (polls debounceDelay triggerPin press_polls (db init)))
         \<noteq> currentState (polls debounceDelay triggerPin press_polls (db init)) triggerPin
      \<and> (106 :: u32) - 106 < debounceDelay)
   \<and> (fst (debounceInput debounceDelay triggerPin False 106 106
              (polls debounceDelay triggerPin press_polls (db init))) = (\<not> False)
      \<and> (\<exists>qs q rs. press_polls = qs @ q # rs \<and> (\<forall>x \<in> set (q # rs). level x = False)
             \<and> debounceDelay \<le> 106 - clockA q))
   \<and> ((100 :: u32) - 100 < debounceDelay_v050 \<and> (101 :: u32) - 101 < debounceDelay_v050)
   \<and> (fst (debounceInput debounceDelay_v050 triggerPin False 100 100 (db init))
         = currentState (db init) triggerPin
      \<and> fst (debounceInput debounceDelay_v050 triggerPin True 101 101
               (snd (debounceInput debounceDelay_v050 triggerPin False 100 100 (db init))))
         = currentState (db init) triggerPin)"
proof -
  have h1: "(\<not> False) \<noteq> lastState (db init) triggerPin \<and> (100 :: u32) - 100 < debounceDelay
    \<and> (\<not> True) = lastState (db init) triggerPin \<and> (101 :: u32) - 101 < debounceDelay"
    by (simp add: init_def debounceDelay_def)
  have h2: "currentState (db init) triggerPin = lastState (db init) triggerPin
      \<and> fst (debounceInput debounceDelay triggerPin False 106 106
              (polls debounceDelay triggerPin press_polls (db init)))
         \<noteq> currentState (polls debounceDelay triggerPin press_polls (db init)) triggerPin
      \<and> (106 :: u32) - 106 < debounceDelay"
    by (simp add: press_polls_def debounceInput_def Let_def init_def debounceDelay_def)
  have h3: "(100 :: u32) - 100 < debounceDelay_v050 \<and> (101 :: u32) - 101 < debounceDelay_v050"
    by (simp add: debounceDelay_v050_def)
  from C6_debounce_glitch_and_window[of False "db init" triggerPin 100 100 debounceDelay
      True 101 101 False 106 106 press_polls]
    C6_debounce_glitch_and_window[of False "db init" triggerPin 100 100 debounceDelay_v050
      True 101 101 False 106 106 press_polls]
    h1 h2 h3
  show ?thesis by blast
qed

section \<open>C7: the spin-up timestamp\<close>

lemma startTime_kept_or_cleared:
  "flywheelStartTime s \<noteq> 0 \<Longrightarrow>
   flywheelStartTime (flywheelControl tA tB tC s) = flywheelStartTime s
   \<or> flywheelStartTime (flywheelControl tA tB tC s) = 0"
  by (simp add: flywheelControl_def Let_def)

lemma startTime_set_only_when_absent:
  "flywheelStartTime (flywheelControl tA tB tC s) \<noteq> flywheelStartTime s \<Longrightarrow>
   flywheelStartTime (flywheelControl tA tB tC s) \<noteq> 0 \<Longrightarrow>
   flywheelStartTime s = 0 \<and> flywheelStartTime (flywheelControl tA tB tC s) = tA"
  by (simp add: flywheelControl_def Let_def split: if_splits)

lemma startTime_held_while_running:
  "flywheelStartTime s \<noteq> 0 \<Longrightarrow> flywheelPulse (flywheelControl tA tB tC s) = flywheelRunPulse \<Longrightarrow>
   flywheelStartTime (flywheelControl tA tB tC s) = flywheelStartTime s"
  by (auto simp: flywheelControl_def Let_def pulse_defs split: if_splits)

lemma startTime_cleared_on_stop:
  "(flywheelPulse s = flywheelStopPulse \<longrightarrow> flywheelStartTime s = 0) \<Longrightarrow>
   flywheelPulse (flywheelControl tA tB tC s) = flywheelStopPulse \<Longrightarrow>
   flywheelStartTime (flywheelControl tA tB tC s) = 0"
  by (auto simp: flywheelControl_def Let_def pulse_defs split: if_splits)

lemma loop_stop_cleared:
  assumes "loop inp s = Some s'" "flywheelPulse s = flywheelStopPulse \<longrightarrow> flywheelStartTime s = 0"
  shows "flywheelPulse s' = flywheelStopPulse \<longrightarrow> flywheelStartTime s' = 0"
proof -
  let ?p = "pusherControl (millisPusher (ctl inp)) (readInputs inp s)"
  let ?f = "flywheelControl (millisFlywheelA (ctl inp)) (millisFlywheelB (ctl inp))
              (millisFlywheelC (ctl inp)) ?p"
  have "flywheelPulse ?p = flywheelStopPulse \<longrightarrow> flywheelStartTime ?p = 0"
    using assms(2) by (simp add: pusherControl_fields readInputs_fields)
  then have "flywheelPulse ?f = flywheelStopPulse \<longrightarrow> flywheelStartTime ?f = 0"
    using startTime_cleared_on_stop by blast
  moreover have "fireControl ?f = Some s'" using assms(1) by (simp add: loop_def control_def)
  ultimately show ?thesis using fireControl_fields[of ?f s'] by simp
qed

lemma loops_stop_cleared:
  "loops inps s = Some s' \<Longrightarrow> (flywheelPulse s = flywheelStopPulse \<longrightarrow> flywheelStartTime s = 0) \<Longrightarrow>
   flywheelPulse s' = flywheelStopPulse \<longrightarrow> flywheelStartTime s' = 0"
proof (induction inps arbitrary: s)
  case Nil
  then show ?case by simp
next
  case (Cons inp inps)
  from Cons.prems(1) obtain s1 where s1: "loop inp s = Some s1" "loops inps s1 = Some s'"
    by (auto split: option.splits)
  from loop_stop_cleared[OF s1(1) Cons.prems(2)] Cons.IH[OF s1(2)] show ?case by blast
qed

lemma startTime_v050:
  "flywheelStartTime s \<noteq> 0 \<longrightarrow>
     flywheelStartTime (flywheelControl_v050 tA tB tC s) = flywheelStartTime s
     \<or> flywheelStartTime (flywheelControl_v050 tA tB tC s) = 0"
  "flywheelStartTime (flywheelControl_v050 tA tB tC s) \<noteq> flywheelStartTime s
     \<and> flywheelStartTime (flywheelControl_v050 tA tB tC s) \<noteq> 0 \<longrightarrow>
     flywheelStartTime s = 0 \<and> flywheelStartTime (flywheelControl_v050 tA tB tC s) = tA"
  "flywheelStartTime s \<noteq> 0 \<and> flywheelPulse (flywheelControl_v050 tA tB tC s) = flywheelRunPulse_v050 \<longrightarrow>
     flywheelStartTime (flywheelControl_v050 tA tB tC s) = flywheelStartTime s"
  "(flywheelPulse s = flywheelStopPulse_v050 \<longrightarrow> flywheelStartTime s = 0)
     \<and> flywheelPulse (flywheelControl_v050 tA tB tC s) = flywheelStopPulse_v050 \<longrightarrow>
     flywheelStartTime (flywheelControl_v050 tA tB tC s) = 0"
  by (auto simp: flywheelControl_v050_def Let_def flywheelRunPulse_v050_def
      flywheelStopPulse_v050_def split: if_splits)

text \<open>
  C7. \<^verbatim>\<open>flywheelControl\<close>, in both revisions and for any clock readings:
  a timestamp that is set (non-zero) is never overwritten by a tick, it is kept or
  cleared; a tick that changes the timestamp to a set value found it absent and stored
  the clock reading \<open>tA\<close>; on a tick that ends with the flywheel commanded Run a set
  timestamp is unchanged; and a tick that ends with the flywheel commanded Stop ends with
  the timestamp absent, given that this held before the tick. It holds before the first
  tick, so in v0.9.0 it holds after any number of ticks of \<open>loop\<close> from power-up.
\<close>

theorem C7_spinup_timestamp:
  "(flywheelStartTime s \<noteq> 0 \<longrightarrow>
      flywheelStartTime (flywheelControl tA tB tC s) = flywheelStartTime s
      \<or> flywheelStartTime (flywheelControl tA tB tC s) = 0)
   \<and> (flywheelStartTime (flywheelControl tA tB tC s) \<noteq> flywheelStartTime s
       \<and> flywheelStartTime (flywheelControl tA tB tC s) \<noteq> 0 \<longrightarrow>
      flywheelStartTime s = 0 \<and> flywheelStartTime (flywheelControl tA tB tC s) = tA)
   \<and> (flywheelStartTime s \<noteq> 0 \<and> flywheelPulse (flywheelControl tA tB tC s) = flywheelRunPulse \<longrightarrow>
      flywheelStartTime (flywheelControl tA tB tC s) = flywheelStartTime s)
   \<and> ((flywheelPulse s = flywheelStopPulse \<longrightarrow> flywheelStartTime s = 0)
       \<and> flywheelPulse (flywheelControl tA tB tC s) = flywheelStopPulse \<longrightarrow>
      flywheelStartTime (flywheelControl tA tB tC s) = 0)
   \<and> (loops inps init = Some sN \<and> flywheelPulse sN = flywheelStopPulse \<longrightarrow>
      flywheelStartTime sN = 0)
   \<and> (flywheelStartTime s \<noteq> 0 \<longrightarrow>
      flywheelStartTime (flywheelControl_v050 tA tB tC s) = flywheelStartTime s
      \<or> flywheelStartTime (flywheelControl_v050 tA tB tC s) = 0)
   \<and> (flywheelStartTime (flywheelControl_v050 tA tB tC s) \<noteq> flywheelStartTime s
       \<and> flywheelStartTime (flywheelControl_v050 tA tB tC s) \<noteq> 0 \<longrightarrow>
      flywheelStartTime s = 0 \<and> flywheelStartTime (flywheelControl_v050 tA tB tC s) = tA)
   \<and> (flywheelStartTime s \<noteq> 0
       \<and> flywheelPulse (flywheelControl_v050 tA tB tC s) = flywheelRunPulse_v050 \<longrightarrow>
      flywheelStartTime (flywheelControl_v050 tA tB tC s) = flywheelStartTime s)
   \<and> ((flywheelPulse s = flywheelStopPulse_v050 \<longrightarrow> flywheelStartTime s = 0)
       \<and> flywheelPulse (flywheelControl_v050 tA tB tC s) = flywheelStopPulse_v050 \<longrightarrow>
      flywheelStartTime (flywheelControl_v050 tA tB tC s) = 0)"
proof -
  have "loops inps init = Some sN \<and> flywheelPulse sN = flywheelStopPulse \<longrightarrow>
      flywheelStartTime sN = 0"
    using loops_stop_cleared[of inps init sN] by (simp add: init_def)
  then show ?thesis
    using startTime_kept_or_cleared[of s tA tB tC] startTime_set_only_when_absent[of tA tB tC s]
      startTime_held_while_running[of s tA tB tC] startTime_cleared_on_stop[of s tA tB tC]
      startTime_v050(1)[of s tA tB tC] startTime_v050(2)[of tA tB tC s]
      startTime_v050(3)[of s tA tB tC] startTime_v050(4)[of s tA tB tC]
    by blast
qed

theorem C7_witness:
  "flywheelStartTime spooling = 1000
   \<and> flywheelPulse (flywheelControl 1100 1100 1100 spooling) = flywheelRunPulse
   \<and> flywheelStartTime (flywheelControl 1100 1100 1100 spooling) = 1000
   \<and> flywheelStartTime ready_idle = 0
   \<and> flywheelStartTime (flywheelControl 1000 1002 1004 ready_idle) = 1000
   \<and> flywheelStartTime eject_opened = 100
   \<and> flywheelPulse (flywheelControl 1000 1000 1000 eject_opened) = flywheelStopPulse
   \<and> flywheelStartTime (flywheelControl 1000 1000 1000 eject_opened) = 0
   \<and> loops [pressed_in 0, pressed_in 10] init \<noteq> None
   \<and> flywheelPulse (the (loops [pressed_in 0, pressed_in 10] init)) = flywheelStopPulse
   \<and> flywheelStartTime (the (loops [pressed_in 0, pressed_in 10] init)) = 0"
proof -
  let ?sN = "the (loops [pressed_in 0, pressed_in 10] init)"
  have ne: "loops [pressed_in 0, pressed_in 10] init \<noteq> None"
    by (rule third_tick_fields(1))
  then have sN: "loops [pressed_in 0, pressed_in 10] init = Some ?sN" by simp
  have p: "flywheelPulse ?sN = flywheelStopPulse"
    by (simp add: step_defs pressed_in_def allClocks_def init_def pin_defs
        const_defs pulse_defs)
  have a: "flywheelPulse (flywheelControl 1100 1100 1100 spooling) = flywheelRunPulse"
    "flywheelStartTime (flywheelControl 1000 1002 1004 ready_idle) \<noteq> flywheelStartTime ready_idle"
    "flywheelStartTime (flywheelControl 1000 1002 1004 ready_idle) \<noteq> 0"
    "flywheelPulse (flywheelControl 1000 1000 1000 eject_opened) = flywheelStopPulse"
    "flywheelPulse eject_opened \<noteq> flywheelStopPulse"
    by (simp_all add: flywheelControl_def Let_def spooling_def ready_idle_def eject_opened_def
        init_def const_defs pulse_defs)
  have b: "flywheelStartTime spooling = 1000" "flywheelStartTime ready_idle = 0"
    "flywheelStartTime eject_opened = 100"
    by (simp_all add: spooling_def ready_idle_def eject_opened_def init_def)
  from C7_spinup_timestamp[of spooling 1100 1100 1100 "[pressed_in 0, pressed_in 10]" ?sN]
    C7_spinup_timestamp[of ready_idle 1000 1002 1004 "[]" init]
    C7_spinup_timestamp[of eject_opened 1000 1000 1000 "[]" init]
    a b sN p ne
  show ?thesis by simp
qed

section \<open>C8: a three-shot burst\<close>

lemma flywheel_runs_when_ready:
  "interlock s \<Longrightarrow> shotsRemaining s \<noteq> 0 \<or> readyPinState s \<Longrightarrow> tC - tB < flywheelRunTime \<Longrightarrow>
   flywheelPulse (flywheelControl tA tB tC s) = flywheelRunPulse"
  by (auto simp: flywheelControl_def interlock_def Let_def not_le[symmetric])

lemma run_single:
  "run [k] s = control (tClocks k) (latch (tEject k) (tPosition k) (tTrigger k) (tReady k) s)"
  by (simp split: option.splits)

text \<open>
  C8 (scenario A). With the interlock satisfied, the ready switch asserted and the queue
  empty, \<^verbatim>\<open>flywheelControl\<close> commands Run (the clock advancing by less than the
  minimum run time between its last two readings). A tick on which the trigger is active
  after a tick on which it was not, with the interlock satisfied and the selected mode's
  depth 3 (and the position signal not rising on that same tick), leaves 3 in the queue.
  From there, over any sequence of ticks with the trigger held and the interlock
  satisfied (the chamber states are true on every tick of v0.9.0), the queue holds 3 minus
  the number of rising edges of the position signal: 2 after the first, 1 after the
  second, 0 after the third, and it is zero only then.
\<close>

theorem C8_three_shot_burst:
  "(interlock s0 \<and> readyPinState s0 \<and> shotsRemaining s0 = 0 \<and> tC - tB < flywheelRunTime \<longrightarrow>
      flywheelPulse (flywheelControl tA tB tC s0) = flywheelRunPulse)
   \<and> (shotCount (unat (shotMode s)) = Some 3 \<and> \<not> lastTriggerPinState s
        \<and> tEject k \<and> tTrigger k \<and> \<not> (\<not> lastpositionPinState s \<and> tPosition k)
        \<and> (\<forall>j\<in>set ks. tEject j \<and> tTrigger j) \<longrightarrow>
      (\<exists>s1 s2. run [k] s = Some s1 \<and> shotsRemaining s1 = 3
          \<and> run ks s1 = Some s2
          \<and> unat (shotsRemaining s2) = 3 - risingEdges (tPosition k) (map tPosition ks)
          \<and> (shotsRemaining s2 = 0) = (3 \<le> risingEdges (tPosition k) (map tPosition ks))))"
proof (intro conjI impI)
  assume "interlock s0 \<and> readyPinState s0 \<and> shotsRemaining s0 = 0 \<and> tC - tB < flywheelRunTime"
  then show "flywheelPulse (flywheelControl tA tB tC s0) = flywheelRunPulse"
    using flywheel_runs_when_ready[of s0 tC tB tA] by simp
next
  assume a: "shotCount (unat (shotMode s)) = Some 3 \<and> \<not> lastTriggerPinState s
        \<and> tEject k \<and> tTrigger k \<and> \<not> (\<not> lastpositionPinState s \<and> tPosition k)
        \<and> (\<forall>j\<in>set ks. tEject j \<and> tTrigger j)"
  then have pre: "\<not> lastTriggerPinState s" "shotCount (unat (shotMode s)) = Some 3" by simp_all
  from control_press[OF pre, of "tClocks k" "tPosition k" "tReady k"] a obtain s1 where
    s1: "run [k] s = Some s1" "shotsRemaining s1 = 3" "lastTriggerPinState s1"
        "lastpositionPinState s1 = tPosition k"
    unfolding run_single by auto
  from a have "\<forall>j\<in>set ks. tEject j \<and> tTrigger j" by simp
  from run_held[OF s1(3) this] obtain s2 where
    s2: "run ks s1 = Some s2"
    "unat (shotsRemaining s2) = unat (shotsRemaining s1) - risingEdges (lastpositionPinState s1) (map tPosition ks)"
    by blast
  have u: "unat (shotsRemaining s2) = 3 - risingEdges (tPosition k) (map tPosition ks)"
    using s2(2) s1(2,4) by simp
  have "(shotsRemaining s2 = 0) = (unat (shotsRemaining s2) = 0)" by (simp add: unat_eq_0)
  also have "\<dots> = (3 \<le> risingEdges (tPosition k) (map tPosition ks))" using u by auto
  finally have "(shotsRemaining s2 = 0) = (3 \<le> risingEdges (tPosition k) (map tPosition ks))" .
  with s1(1,2) s2(1) u
  show "\<exists>s1 s2. run [k] s = Some s1 \<and> shotsRemaining s1 = 3
          \<and> run ks s1 = Some s2
          \<and> unat (shotsRemaining s2) = 3 - risingEdges (tPosition k) (map tPosition ks)
          \<and> (shotsRemaining s2 = 0) = (3 \<le> risingEdges (tPosition k) (map tPosition ks))"
    by blast
qed

theorem C8_witness:
  "interlock ready_idle \<and> readyPinState ready_idle \<and> shotsRemaining ready_idle = 0
   \<and> flywheelPulse ready_idle = flywheelStopPulse
   \<and> flywheelPulse (flywheelControl 1000 1000 1000 ready_idle) = flywheelRunPulse
   \<and> shotCount (unat (shotMode ready_idle)) = Some 3 \<and> \<not> lastTriggerPinState ready_idle
   \<and> (\<exists>s1 s2. run [held 1010 False] ready_idle = Some s1 \<and> shotsRemaining s1 = 3
        \<and> run [held 1300 True, held 1400 False, held 1500 True, held 1600 False, held 1700 True] s1
             = Some s2
        \<and> shotsRemaining s2 = 0)
   \<and> (\<exists>s1 s2. run [held 1010 False] ready_idle = Some s1 \<and> shotsRemaining s1 = 3
        \<and> run [held 1300 True, held 1400 False, held 1500 True, held 1600 False] s1 = Some s2
        \<and> unat (shotsRemaining s2) = 1)"
  using C8_three_shot_burst[of ready_idle 1000 1000 1000 ready_idle "held 1010 False"
      "[held 1300 True, held 1400 False, held 1500 True, held 1600 False, held 1700 True]"]
    C8_three_shot_burst[of ready_idle 1000 1000 1000 ready_idle "held 1010 False"
      "[held 1300 True, held 1400 False, held 1500 True, held 1600 False]"]
  by (auto simp del: run.simps simp add: ready_idle_def init_def held_def interlock_def
      shotCount_def flywheelRunTime_def pulse_defs)

section \<open>C9: the final shot of a burst\<close>

text \<open>
  C9. On every tick of v0.9.0 (the state being the one \<open>loop\<close> has just read its inputs
  into) on which the interlock is satisfied, the mechanism is not at home, the flywheel has
  spooled, exactly one shot remains and the selected mode is not mode 0 (single shot), the
  pusher command is Return.
\<close>

theorem C9_final_shot_returns:
  "s1 = readInputs inp s \<Longrightarrow> interlock s1 \<Longrightarrow> \<not> positionPinState s1 \<Longrightarrow>
   shotsRemaining s1 \<noteq> 0 \<Longrightarrow> flywheelStartTime s1 \<noteq> 0 \<Longrightarrow>
   flywheelSpoolTime \<le> t - flywheelStartTime s1 \<Longrightarrow>
   shotsRemaining s1 = 1 \<Longrightarrow> shotMode s1 \<noteq> 0 \<Longrightarrow>
   pusherPulse (pusherControl t s1) = pusherReturnPulse"
  by (simp add: pusherControl_def interlock_def readInputs_pins word_le_nat_alt unat_gt_0 Suc_le_eq)

theorem C9_witness:
  "interlock (readInputs (pressed_in 1000) last_shot)
   \<and> \<not> positionPinState (readInputs (pressed_in 1000) last_shot)
   \<and> shotsRemaining (readInputs (pressed_in 1000) last_shot) = 1
   \<and> shotMode (readInputs (pressed_in 1000) last_shot) = 1
   \<and> flywheelStartTime (readInputs (pressed_in 1000) last_shot) = 100
   \<and> flywheelSpoolTime \<le> 1000 - flywheelStartTime (readInputs (pressed_in 1000) last_shot)
   \<and> pusherPulse (readInputs (pressed_in 1000) last_shot) = pusherRunPulse
   \<and> pusherPulse (pusherControl 1000 (readInputs (pressed_in 1000) last_shot)) = pusherReturnPulse"
  using C9_final_shot_returns[of "readInputs (pressed_in 1000) last_shot" "pressed_in 1000" last_shot 1000]
  by (simp add: interlock_def readInputs_def latch_def debounceInput_def Let_def pressed_in_def
      allClocks_def last_shot_def init_def pin_defs debounceDelay_def flywheelSpoolTime_def pulse_defs)

section \<open>C10: elapsed time across clock rollover\<close>

lemma elapsed_true: "T0 \<le> T \<Longrightarrow> unat (clockAt T - clockAt T0) = (T - T0) mod 2 ^ 32"
proof -
  assume "T0 \<le> T"
  then have "clockAt T - clockAt T0 = (of_nat (T - T0) :: u32)"
    by (simp add: clockAt_def of_nat_diff)
  then show ?thesis by (simp add: unat_of_nat)
qed

lemma elapsed_ge:
  "T0 \<le> T \<Longrightarrow> (w \<le> clockAt T - clockAt T0) = (unat w \<le> (T - T0) mod 2 ^ 32)"
  by (simp add: word_le_nat_alt elapsed_true)

lemma debounce_commit:
  "currentState (snd (debounceInput delay pin lv tA tB d)) pin
     = (if delay \<le> tB - timer (snd (debounceInput delay pin lv tA tB d)) pin
        then \<not> lv else currentState d pin)"
  by (simp add: debounceInput_def Let_def)

lemma flywheel_stop_test:
  "interlock s \<Longrightarrow>
   (if flywheelRunTime \<le> tC - flywheelTimer (flywheelControl tA tB tC s)
    then flywheelPulse (flywheelControl tA tB tC s) = flywheelStopPulse
       \<and> flywheelStartTime (flywheelControl tA tB tC s) = 0
    else flywheelPulse (flywheelControl tA tB tC s)
           = (if shotsRemaining s \<noteq> 0 \<or> readyPinState s
              then flywheelRunPulse else flywheelPulse s)
       \<and> flywheelStartTime (flywheelControl tA tB tC s)
           = (if (shotsRemaining s \<noteq> 0 \<or> readyPinState s) \<and> flywheelStartTime s = 0
              then tA else flywheelStartTime s))"
  by (auto simp: flywheelControl_def Let_def interlock_def)

lemma pusher_spool_test:
  "interlock s \<Longrightarrow> shotsRemaining s \<noteq> 0 \<Longrightarrow> disclPinState s \<and> discrPinState s \<Longrightarrow>
   flywheelStartTime s \<noteq> 0 \<Longrightarrow>
   pusherPulse (pusherControl t s) =
     (if flywheelSpoolTime \<le> t - flywheelStartTime s
      then (if \<not> positionPinState s \<and> shotsRemaining s = 1 \<and> 1 \<le> shotMode s
            then pusherReturnPulse else pusherRunPulse)
      else pusherPulse s)"
  by (auto simp: pusherControl_def Let_def interlock_def)

text \<open>
  C10. Let the stored timestamp have been read from the clock at true time \<open>T0\<close> and the
  current reading at true time \<open>T\<close>, \<open>T0 \<le> T\<close>. The unsigned difference of the two clock
  values is the true elapsed time modulo \<open>2 ^ 32\<close>, whether or not the counter rolled
  over in between, so a comparison with a duration is the comparison of the true elapsed
  time whenever that is below \<open>2 ^ 32\<close> ms. Each of the three tests decides by exactly
  this difference: the debouncer commits the sample iff the elapsed time since its
  stability timer is at least the window; the flywheel controller (interlock satisfied)
  stops and clears the timestamp iff the elapsed time since \<open>flywheelTimer\<close> is at least
  the run time; the pusher controller (interlock satisfied, queue non-zero, chamber
  states true, timestamp set) issues its spooled command iff the elapsed time since the
  spin-up timestamp is at least the spool time.
\<close>

theorem C10_elapsed_tests_wraparound_safe:
  assumes "T0 \<le> T"
  shows
  "unat (clockAt T - clockAt T0) = (T - T0) mod 2 ^ 32
   \<and> (T - T0 < 2 ^ 32 \<longrightarrow> (w \<le> clockAt T - clockAt T0) = (unat w \<le> T - T0))
   \<and> (timer (snd (debounceInput delay pin lv tA (clockAt T) d)) pin = clockAt T0 \<longrightarrow>
        currentState (snd (debounceInput delay pin lv tA (clockAt T) d)) pin
          = (if unat delay \<le> (T - T0) mod 2 ^ 32 then \<not> lv else currentState d pin))
   \<and> (interlock s \<and> flywheelTimer (flywheelControl tA tB (clockAt T) s) = clockAt T0 \<longrightarrow>
        (if unat flywheelRunTime \<le> (T - T0) mod 2 ^ 32
         then flywheelPulse (flywheelControl tA tB (clockAt T) s) = flywheelStopPulse
              \<and> flywheelStartTime (flywheelControl tA tB (clockAt T) s) = 0
         else flywheelPulse (flywheelControl tA tB (clockAt T) s)
                = (if shotsRemaining s \<noteq> 0 \<or> readyPinState s
                   then flywheelRunPulse else flywheelPulse s)
              \<and> flywheelStartTime (flywheelControl tA tB (clockAt T) s)
                = (if (shotsRemaining s \<noteq> 0 \<or> readyPinState s) \<and> flywheelStartTime s = 0
                   then tA else flywheelStartTime s)))
   \<and> (interlock s \<and> shotsRemaining s \<noteq> 0 \<and> disclPinState s \<and> discrPinState s
        \<and> flywheelStartTime s = clockAt T0 \<and> clockAt T0 \<noteq> 0 \<longrightarrow>
        pusherPulse (pusherControl (clockAt T) s)
          = (if unat flywheelSpoolTime \<le> (T - T0) mod 2 ^ 32
             then (if \<not> positionPinState s \<and> shotsRemaining s = 1 \<and> 1 \<le> shotMode s
                   then pusherReturnPulse else pusherRunPulse)
             else pusherPulse s))"
proof (intro conjI impI)
  show "unat (clockAt T - clockAt T0) = (T - T0) mod 2 ^ 32"
    using assms by (rule elapsed_true)
next
  assume "T - T0 < 2 ^ 32"
  then show "(w \<le> clockAt T - clockAt T0) = (unat w \<le> T - T0)"
    using elapsed_ge[OF assms, of w] by simp
next
  assume t: "timer (snd (debounceInput delay pin lv tA (clockAt T) d)) pin = clockAt T0"
  show "currentState (snd (debounceInput delay pin lv tA (clockAt T) d)) pin
          = (if unat delay \<le> (T - T0) mod 2 ^ 32 then \<not> lv else currentState d pin)"
    using debounce_commit[where delay=delay and pin=pin and lv=lv and tA=tA and tB="clockAt T" and d=d]
      elapsed_ge[OF assms, of delay] t
    by simp
next
  assume a: "interlock s \<and> flywheelTimer (flywheelControl tA tB (clockAt T) s) = clockAt T0"
  then have i: "interlock s" by simp
  show "if unat flywheelRunTime \<le> (T - T0) mod 2 ^ 32
         then flywheelPulse (flywheelControl tA tB (clockAt T) s) = flywheelStopPulse
              \<and> flywheelStartTime (flywheelControl tA tB (clockAt T) s) = 0
         else flywheelPulse (flywheelControl tA tB (clockAt T) s)
                = (if shotsRemaining s \<noteq> 0 \<or> readyPinState s
                   then flywheelRunPulse else flywheelPulse s)
              \<and> flywheelStartTime (flywheelControl tA tB (clockAt T) s)
                = (if (shotsRemaining s \<noteq> 0 \<or> readyPinState s) \<and> flywheelStartTime s = 0
                   then tA else flywheelStartTime s)"
    using flywheel_stop_test[OF i, where tA=tA and tB=tB and tC="clockAt T"]
      elapsed_ge[OF assms, of flywheelRunTime] a
    by simp
next
  assume a: "interlock s \<and> shotsRemaining s \<noteq> 0 \<and> disclPinState s \<and> discrPinState s
        \<and> flywheelStartTime s = clockAt T0 \<and> clockAt T0 \<noteq> 0"
  then have h: "interlock s" "shotsRemaining s \<noteq> 0" "disclPinState s \<and> discrPinState s"
    "flywheelStartTime s \<noteq> 0" by simp_all
  show "pusherPulse (pusherControl (clockAt T) s)
          = (if unat flywheelSpoolTime \<le> (T - T0) mod 2 ^ 32
             then (if \<not> positionPinState s \<and> shotsRemaining s = 1 \<and> 1 \<le> shotMode s
                   then pusherReturnPulse else pusherRunPulse)
             else pusherPulse s)"
    using pusher_spool_test[OF h, of "clockAt T"] elapsed_ge[OF assms, of flywheelSpoolTime] a
    by simp
qed

lemma clock_values:
  "clockAt 4294967196 = 4294967196" "clockAt 4294967396 = 100" "clockAt 4294967496 = 200"
  by (simp_all add: clockAt_def)

theorem C10_witness:
  "(4294967196 :: nat) \<le> 4294967496
   \<and> clockAt 4294967196 = 4294967196 \<and> clockAt 4294967496 = 200
   \<and> unat (clockAt 4294967496 - clockAt 4294967196) = 300
   \<and> interlock before_rollover \<and> shotsRemaining before_rollover \<noteq> 0
   \<and> flywheelStartTime before_rollover = clockAt 4294967196
   \<and> pusherPulse before_rollover = pusherReturnPulse
   \<and> pusherPulse (pusherControl (clockAt 4294967496) before_rollover) = pusherRunPulse
   \<and> pusherPulse (pusherControl (clockAt 4294967396) before_rollover) = pusherReturnPulse"
  using C10_elapsed_tests_wraparound_safe[of 4294967196 4294967496 0 0 0 False 0 "db init"
      before_rollover 0]
    C10_elapsed_tests_wraparound_safe[of 4294967196 4294967396 0 0 0 False 0 "db init"
      before_rollover 0]
  by (simp add: clock_values before_rollover_def spooling_def init_def interlock_def
      flywheelSpoolTime_def pulse_defs)

end
